theory Spec2Isabelle
  imports Main "HOL-Library.Sublist"
begin

section \<open>JavaScript values as the server sees them\<close>

text \<open>
  The tool handlers of \<^verbatim>\<open>src/index.ts\<close> receive their arguments as \<^verbatim>\<open>any\<close>:
  whatever JSON value the caller sent, or \<^verbatim>\<open>undefined\<close>. The model keeps that:
  a handler takes a \<open>jsval\<close> and every property read, truthiness test and string
  interpolation is the JavaScript one.

  The server never computes with a number a caller or the daemon supplies: it tests it
  for truthiness, prints it, or hands it on. \<open>JNum n\<close> is the number that the integer
  numeral \<open>n\<close> denotes in JavaScript: \<open>n\<close> itself up to \<open>2^53\<close> in size, the nearest
  double beyond. A finite number with a fractional part is given by the decimal text
  JavaScript prints for it (\<open>JFrac ''0.7''\<close>; such a number is never zero). An object
  is the list of its own properties in enumeration order, each key once.
\<close>

datatype jsval =
    JUndefined
  | JNull
  | JBool bool
  | JNum int
  | JFrac string
  | JStr string
  | JArr "jsval list"
  | JObj "(string \<times> jsval) list"

abbreviation LF :: char where "LF \<equiv> CHR 0x0A"
abbreviation DQ :: char where "DQ \<equiv> CHR 0x22"
abbreviation BSL :: char where "BSL \<equiv> CHR 0x5C"
abbreviation SQ :: char where "SQ \<equiv> CHR 0x27"

subsection \<open>Printing a number\<close>

text \<open>Decimal digits of a natural number, most significant first.\<close>

fun digits :: "nat \<Rightarrow> string" where
  "digits n =
     (if n < 10 then [''0123456789'' ! n]
      else digits (n div 10) @ [''0123456789'' ! (n mod 10)])"

declare digits.simps [simp del]

text \<open>The number of binary digits of a natural number.\<close>

fun bit_length :: "nat \<Rightarrow> nat" where
  "bit_length n = (if n = 0 then 0 else Suc (bit_length (n div 2)))"

declare bit_length.simps [simp del]

text \<open>
  The double nearest to a natural number, ties to the even significand; \<open>None\<close> when
  that is \<^verbatim>\<open>Infinity\<close>. A double has 53 significant binary digits, so a number
  below \<open>2^53\<close> is one as it stands.
\<close>

definition to_double :: "nat \<Rightarrow> nat option" where
  "to_double a =
     (if a < 9007199254740992 then Some a
      else
        let e = bit_length a - 53;
            q = a div 2 ^ e;
            r = a mod 2 ^ e;
            h = 2 ^ (e - 1);
            x = (if h < r \<or> (r = h \<and> odd q) then q + 1 else q) * 2 ^ e
        in if 2 ^ 1024 \<le> x then None else Some x)"

text \<open>
  JavaScript prints a number with the fewest significant digits that still read back as
  the same double. \<open>candidate x k\<close> is the number with at most \<open>k\<close> significant digits
  that reads back as the double \<open>x\<close>, if there is one: the one nearer to \<open>x\<close> of the
  two that enclose it, the one with the even last digit on a tie.
\<close>

definition candidate :: "nat \<Rightarrow> nat \<Rightarrow> nat option" where
  "candidate x k =
     (let p = length (digits x) - k;
          lo = (x div 10 ^ p) * 10 ^ p;
          hi = lo + 10 ^ p
      in if to_double lo = Some x \<and> to_double hi = Some x then
           (if x - lo < hi - x then Some lo
            else if hi - x < x - lo then Some hi
            else if even (lo div 10 ^ p) then Some lo else Some hi)
         else if to_double lo = Some x then Some lo
         else if to_double hi = Some x then Some hi
         else None)"

text \<open>Seventeen digits always suffice for a double.\<close>

definition shortest :: "nat \<Rightarrow> nat" where
  "shortest x = (case List.map_filter (candidate x) [1..<18] of c # cs \<Rightarrow> c | [] \<Rightarrow> x)"

definition strip_zeros :: "string \<Rightarrow> string" where
  "strip_zeros s = rev (dropWhile (\<lambda>c. c = CHR ''0'') (rev s))"

text \<open>An integer of at most 21 digits is printed in full, a longer one with an
  exponent: \<^verbatim>\<open>1e+21\<close>, \<^verbatim>\<open>1.2345678901234568e+23\<close>.\<close>

definition exponent_form :: "nat \<Rightarrow> string" where
  "exponent_form c =
     (if length (digits c) \<le> 21 then digits c
      else
        (case strip_zeros (digits c) of
           [] \<Rightarrow> digits c
         | d # ds \<Rightarrow>
             d # (if ds = [] then [] else CHR ''.'' # ds) @ ''e+'' @ digits (length (digits c) - 1)))"

text \<open>Whether the number \<open>JNum n\<close> is finite.\<close>

definition finite_number :: "int \<Rightarrow> bool" where
  "finite_number n = (to_double (nat \<bar>n\<bar>) \<noteq> None)"

text \<open>\<^verbatim>\<open>String(n)\<close> for the number \<open>JNum n\<close>.\<close>

definition Number_toString :: "int \<Rightarrow> string" where
  "Number_toString n =
     (if n < 0 then ''-'' else [])
     @ (if nat \<bar>n\<bar> \<le> 9007199254740992 then digits (nat \<bar>n\<bar>)
        else (case to_double (nat \<bar>n\<bar>) of
                None \<Rightarrow> ''Infinity''
              | Some x \<Rightarrow> exponent_form (shortest x)))"

subsection \<open>Truthiness\<close>

text \<open>Truthiness, as \<^verbatim>\<open>if (v)\<close> and \<^verbatim>\<open>v || w\<close> test it.\<close>

fun truthy :: "jsval \<Rightarrow> bool" where
  "truthy JUndefined = False"
| "truthy JNull = False"
| "truthy (JBool b) = b"
| "truthy (JNum n) = (n \<noteq> 0)"
| "truthy (JFrac t) = True"
| "truthy (JStr s) = (s \<noteq> [])"
| "truthy (JArr vs) = True"
| "truthy (JObj kvs) = True"

text \<open>\<^verbatim>\<open>a || b\<close>\<close>

definition or_else :: "jsval \<Rightarrow> jsval \<Rightarrow> jsval" where
  "or_else a b = (if truthy a then a else b)"

subsection \<open>What a handler can throw\<close>

text \<open>
  \<open>ErrorCode\<close> holds the two members of the SDK's enumeration that the source names.
  A thrown value is an \<^verbatim>\<open>McpError\<close> (code and the message given to its
  constructor), an axios error (the value of \<^verbatim>\<open>error.response?.data?.error\<close> and
  its message), any other \<^verbatim>\<open>Error\<close> (its message), or a value that is no
  \<^verbatim>\<open>Error\<close> at all.
\<close>

datatype ErrorCode = MethodNotFound | InternalError

datatype thrown =
    McpError ErrorCode string
  | AxiosError jsval string
  | Error string
  | Thrown jsval

text \<open>Sequencing: the first throw ends the evaluation.\<close>

definition and_then :: "thrown + 'a \<Rightarrow> ('a \<Rightarrow> thrown + 'b) \<Rightarrow> thrown + 'b" where
  "and_then m f = (case m of Inl e \<Rightarrow> Inl e | Inr x \<Rightarrow> f x)"

subsection \<open>Converting to a string\<close>

text \<open>
  \<^verbatim>\<open>String(v)\<close>, which is also what a template literal \<^verbatim>\<open>`${v}`\<close> inserts.
  An object of JSON origin is converted by the \<^verbatim>\<open>toString\<close> it inherits, which
  gives \<^verbatim>\<open>[object Object]\<close>; when it has a property of its own named
  \<^verbatim>\<open>toString\<close>, that one is found instead, it is no function, and the conversion
  throws a \<^verbatim>\<open>TypeError\<close> (the message is V8's). An array prints its elements
  separated by commas, \<^verbatim>\<open>null\<close> and \<^verbatim>\<open>undefined\<close> elements as nothing,
  and throws when the conversion of an element does.
\<close>

fun to_String :: "jsval \<Rightarrow> thrown + string"
and join_elems :: "jsval list \<Rightarrow> thrown + string"
and elem_String :: "jsval \<Rightarrow> thrown + string"
where
  "to_String JUndefined = Inr ''undefined''"
| "to_String JNull = Inr ''null''"
| "to_String (JBool b) = Inr (if b then ''true'' else ''false'')"
| "to_String (JNum n) = Inr (Number_toString n)"
| "to_String (JFrac t) = Inr t"
| "to_String (JStr s) = Inr s"
| "to_String (JArr vs) = join_elems vs"
| "to_String (JObj kvs) =
     (if ''toString'' \<in> set (map fst kvs)
      then Inl (Error ''Cannot convert object to primitive value'')
      else Inr ''[object Object]'')"
| "join_elems [] = Inr []"
| "join_elems [v] = elem_String v"
| "join_elems (v # w # vs) =
     and_then (elem_String v) (\<lambda>s. and_then (join_elems (w # vs)) (\<lambda>t. Inr (s @ '','' @ t)))"
| "elem_String JUndefined = Inr []"
| "elem_String JNull = Inr []"
| "elem_String (JBool b) = to_String (JBool b)"
| "elem_String (JNum n) = to_String (JNum n)"
| "elem_String (JFrac t) = to_String (JFrac t)"
| "elem_String (JStr s) = to_String (JStr s)"
| "elem_String (JArr vs) = to_String (JArr vs)"
| "elem_String (JObj kvs) = to_String (JObj kvs)"

text \<open>The JSON-RPC numbers of the two codes and the text the SDK's \<^verbatim>\<open>McpError\<close>
  constructor stores as \<^verbatim>\<open>.message\<close>.\<close>

fun ErrorCode_number :: "ErrorCode \<Rightarrow> int" where
  "ErrorCode_number MethodNotFound = - 32601"
| "ErrorCode_number InternalError = - 32603"

definition McpError_message :: "ErrorCode \<Rightarrow> string \<Rightarrow> string" where
  "McpError_message c m = ''MCP error '' @ Number_toString (ErrorCode_number c) @ '': '' @ m"

text \<open>
  \<^verbatim>\<open>
  const formatError = (error: unknown): string => {
    if (error instanceof Error) { return error.message; }
    return String(error);
  };
  \<close>
  The three kinds of \<^verbatim>\<open>Error\<close> give their message; for any other value the
  conversion to a string can throw.
\<close>

fun formatError :: "thrown \<Rightarrow> thrown + string" where
  "formatError (McpError c m) = Inr (McpError_message c m)"
| "formatError (AxiosError r m) = Inr m"
| "formatError (Error m) = Inr m"
| "formatError (Thrown v) = to_String v"

text \<open>
  \<^verbatim>\<open>throw new McpError(code, `${what}${text}`)\<close>, where working out \<open>text\<close> may
  itself throw: then that is what is thrown.
\<close>

definition throw_McpError :: "ErrorCode \<Rightarrow> string \<Rightarrow> thrown + string \<Rightarrow> thrown" where
  "throw_McpError c what text =
     (case text of Inr t \<Rightarrow> McpError c (what @ t) | Inl e \<Rightarrow> e)"

text \<open>
  Reading a property. On \<^verbatim>\<open>undefined\<close> and \<^verbatim>\<open>null\<close> the read throws a
  \<^verbatim>\<open>TypeError\<close> (the message is V8's); on an object it gives the property or
  \<^verbatim>\<open>undefined\<close>; on a string, number, boolean or array it gives
  \<^verbatim>\<open>undefined\<close> for every key the source reads (none of them is a built-in
  property of those).
\<close>

fun get :: "jsval \<Rightarrow> string \<Rightarrow> thrown + jsval" where
  "get JUndefined k =
     Inl (Error (''Cannot read properties of undefined (reading '' @ [SQ] @ k @ [SQ] @ '')''))"
| "get JNull k =
     Inl (Error (''Cannot read properties of null (reading '' @ [SQ] @ k @ [SQ] @ '')''))"
| "get (JObj kvs) k = Inr (case map_of kvs k of None \<Rightarrow> JUndefined | Some v \<Rightarrow> v)"
| "get (JBool b) k = Inr JUndefined"
| "get (JNum n) k = Inr JUndefined"
| "get (JFrac t) k = Inr JUndefined"
| "get (JStr s) k = Inr JUndefined"
| "get (JArr vs) k = Inr JUndefined"

subsection \<open>\<^verbatim>\<open>JSON.stringify(value, null, 2)\<close>\<close>

text \<open>
  A string is quoted, with the quote, the backslash and the control characters escaped.
\<close>

definition hex_digit :: "nat \<Rightarrow> char" where
  "hex_digit n = ''0123456789abcdef'' ! n"

definition escape_char :: "char \<Rightarrow> string" where
  "escape_char c =
     (if c = DQ then [BSL, DQ]
      else if c = BSL then [BSL, BSL]
      else if c = CHR 0x08 then [BSL, CHR ''b'']
      else if c = CHR 0x0C then [BSL, CHR ''f'']
      else if c = LF then [BSL, CHR ''n'']
      else if c = CHR 0x0D then [BSL, CHR ''r'']
      else if c = CHR 0x09 then [BSL, CHR ''t'']
      else if (of_char c :: nat) < 32
        then [BSL, CHR ''u'', CHR ''0'', CHR ''0'',
              hex_digit (of_char c div 16), hex_digit (of_char c mod 16)]
      else [c])"

definition quote :: "string \<Rightarrow> string" where
  "quote s = [DQ] @ concat (map escape_char s) @ [DQ]"

fun join_with :: "string \<Rightarrow> string list \<Rightarrow> string" where
  "join_with sep [] = []"
| "join_with sep [p] = p"
| "join_with sep (p # q # ps) = p @ sep @ join_with sep (q # ps)"

text \<open>An array or object with members at indentation \<open>ind\<close>: every member on a line
  of its own, two spaces further in; without members just the two brackets.\<close>

definition bracketed :: "string \<Rightarrow> string \<Rightarrow> string \<Rightarrow> string list \<Rightarrow> string" where
  "bracketed opening closing ind parts =
     (if parts = [] then opening @ closing
      else opening @ [LF] @ ind @ ''  '' @ join_with ('','' @ [LF] @ ind @ ''  '') parts
           @ [LF] @ ind @ closing)"

text \<open>
  \<open>serialize ind v\<close> is the text of \<open>v\<close> at indentation \<open>ind\<close>, or \<open>None\<close> where
  \<^verbatim>\<open>JSON.stringify\<close> gives \<^verbatim>\<open>undefined\<close>. A property whose value is
  \<^verbatim>\<open>undefined\<close> is left out of its object; an \<^verbatim>\<open>undefined\<close> array element
  is written \<^verbatim>\<open>null\<close>, and so is a number that is not finite.
\<close>

fun serialize :: "string \<Rightarrow> jsval \<Rightarrow> string option"
and serialize_elems :: "string \<Rightarrow> jsval list \<Rightarrow> string list"
and serialize_props :: "string \<Rightarrow> (string \<times> jsval) list \<Rightarrow> string list"
where
  "serialize ind JUndefined = None"
| "serialize ind JNull = Some ''null''"
| "serialize ind (JBool b) = Some (if b then ''true'' else ''false'')"
| "serialize ind (JNum n) = Some (if finite_number n then Number_toString n else ''null'')"
| "serialize ind (JFrac t) = Some t"
| "serialize ind (JStr s) = Some (quote s)"
| "serialize ind (JArr vs) = Some (bracketed ''['' '']'' ind (serialize_elems (ind @ ''  '') vs))"
| "serialize ind (JObj kvs) = Some (bracketed ''{'' ''}'' ind (serialize_props (ind @ ''  '') kvs))"
| "serialize_elems ind [] = []"
| "serialize_elems ind (v # vs) =
     (case serialize ind v of None \<Rightarrow> ''null'' | Some t \<Rightarrow> t) # serialize_elems ind vs"
| "serialize_props ind [] = []"
| "serialize_props ind ((k, v) # kvs) =
     (case serialize ind v of
        None \<Rightarrow> serialize_props ind kvs
      | Some t \<Rightarrow> (quote k @ '': '' @ t) # serialize_props ind kvs)"

text \<open>\<^verbatim>\<open>JSON.stringify({...}, null, 2)\<close> of an object literal with the properties
  \<open>kvs\<close>: always a string.\<close>

definition JSON_stringify :: "(string \<times> jsval) list \<Rightarrow> string" where
  "JSON_stringify kvs = bracketed ''{'' ''}'' [] (serialize_props ''  '' kvs)"

section \<open>The backends and the response envelope\<close>

text \<open>
  The server talks to the \<^verbatim>\<open>ollama\<close> command through \<^verbatim>\<open>execAsync\<close> and to the
  daemon through \<^verbatim>\<open>axios.post\<close>. Both belong to the environment: the model takes
  them as functions, together with \<^verbatim>\<open>JSON.parse\<close>, the clock and the value of the
  environment variable \<^verbatim>\<open>OLLAMA_HOST\<close>. A backend call is taken to come back,
  with a value or with a throw. \<open>execAsync b cmd\<close> is the outcome of running the
  command line \<open>cmd\<close> in a shell: the two captured outputs, or the error thrown on
  a non-zero exit or a failure to spawn. \<^verbatim>\<open>JSON.parse\<close> throws nothing but a
  \<^verbatim>\<open>SyntaxError\<close>: \<open>JSON_parse b s\<close> is the value of the text \<open>s\<close> or the message
  of that error. \<open>Date_now b k\<close> is what the \<open>k\<close>-th reading of
  \<^verbatim>\<open>Date.now()\<close> in a call returns, a time value in milliseconds.
\<close>

text \<open>The arguments of one \<^verbatim>\<open>axios.post(url, data, config)\<close>.\<close>

record request =
  url :: string
  data :: jsval
  timeout :: jsval
  responseType :: "string option"

text \<open>
  A chunk of a response body is a string or an array of bytes (what a body read through
  \<^verbatim>\<open>fetch\<close> is made of). The transform reads a chunk through
  \<^verbatim>\<open>chunk.toString()\<close>: a string gives itself, an array of bytes the decimal
  numerals of its bytes, separated by commas.
\<close>

datatype chunk = StringChunk string | Uint8Array "nat list"

fun join_commas :: "string list \<Rightarrow> string" where
  "join_commas [] = []"
| "join_commas [p] = p"
| "join_commas (p # q # ps) = p @ '','' @ join_commas (q # ps)"

fun chunk_toString :: "chunk \<Rightarrow> string" where
  "chunk_toString (StringChunk s) = s"
| "chunk_toString (Uint8Array bytes) = join_commas (map digits bytes)"

text \<open>How a stream ends for its reader: it closes, or it fails with an error.\<close>

datatype stream_end = Closed | Errored thrown

text \<open>
  \<^verbatim>\<open>response.data\<close>: the decoded body, or, when a stream was asked for, the body as
  a stream. The stream axios hands out under Node by default is Node's own readable
  stream, which has no \<^verbatim>\<open>pipeThrough\<close> method. A web stream has one; it is given
  by the chunks a pipe reads from it, in order, and by how it ends after them: the body is
  complete, or reading it fails (the connection is lost).
\<close>

datatype response_data =
    Parsed jsval
  | NodeReadable
  | WebReadable "chunk list" stream_end

record backend =
  execAsync :: "string \<Rightarrow> thrown + string \<times> string"
  axios_post :: "request \<Rightarrow> thrown + response_data"
  JSON_parse :: "string \<Rightarrow> string + jsval"
  Date_now :: "nat \<Rightarrow> int"
  env_OLLAMA_HOST :: "string option"

text \<open>\<^verbatim>\<open>const OLLAMA_HOST = process.env.OLLAMA_HOST || 'http://127.0.0.1:11434';\<close>\<close>

definition OLLAMA_HOST :: "backend \<Rightarrow> string" where
  "OLLAMA_HOST b =
     (case env_OLLAMA_HOST b of
        Some h \<Rightarrow> if h \<noteq> [] then h else ''http://127.0.0.1:11434''
      | None \<Rightarrow> ''http://127.0.0.1:11434'')"

definition DEFAULT_TIMEOUT :: int where
  "DEFAULT_TIMEOUT = 60000"

text \<open>
  A content block is a text or a stream. A stream is lazy in the program; here it is
  what its reader sees when reading it to the end: the values delivered, in order, and
  how it ended.
\<close>

datatype block = Text string | Stream "jsval list" stream_end

record envelope =
  content :: "block list"

section \<open>The tool handlers\<close>

text \<open>
  Every process-backed handler has the shape
  \<^verbatim>\<open>
  try {
    const { stdout, stderr } = await execAsync(`ollama ...`);
    return { content: [ { type: 'text', text: stdout || stderr } ] };
  } catch (error) {
    throw new McpError(ErrorCode.InternalError, `Failed to ...: ${formatError(error)}`);
  }
  \<close>
  and differs in the command line and the message only. A template literal reads and
  converts its substitutions from left to right, inside the \<^verbatim>\<open>try\<close>.
\<close>

definition handleServe :: "backend \<Rightarrow> thrown + envelope" where
  "handleServe b =
     (case execAsync b ''ollama serve'' of
        Inr (stdout, stderr) \<Rightarrow>
          Inr \<lparr>content = [Text (if stdout \<noteq> [] then stdout else stderr)]\<rparr>
      | Inl error \<Rightarrow>
          Inl (throw_McpError InternalError ''Failed to start Ollama server: ''
                 (formatError error)))"

definition handleCreate :: "backend \<Rightarrow> jsval \<Rightarrow> thrown + envelope" where
  "handleCreate b args =
     (case and_then (get args ''name'') (\<lambda>name.
           and_then (to_String name) (\<lambda>name_text.
           and_then (get args ''modelfile'') (\<lambda>modelfile.
           and_then (to_String modelfile) (\<lambda>modelfile_text.
           execAsync b (''ollama create '' @ name_text @ '' -f '' @ modelfile_text))))) of
        Inr (stdout, stderr) \<Rightarrow>
          Inr \<lparr>content = [Text (if stdout \<noteq> [] then stdout else stderr)]\<rparr>
      | Inl error \<Rightarrow>
          Inl (throw_McpError InternalError ''Failed to create model: '' (formatError error)))"

definition handleShow :: "backend \<Rightarrow> jsval \<Rightarrow> thrown + envelope" where
  "handleShow b args =
     (case and_then (get args ''name'') (\<lambda>name.
           and_then (to_String name) (\<lambda>name_text.
           and_then (get args ''show_flag'') (\<lambda>show_flag.
           and_then (if truthy show_flag
                     then and_then (to_String show_flag) (\<lambda>flag_text. Inr ('' --'' @ flag_text))
                     else Inr []) (\<lambda>flag.
           and_then (get args ''verbose'') (\<lambda>verbose.
           execAsync b
             (''ollama show '' @ name_text @ flag
              @ (if truthy verbose then '' --verbose'' else []))))))) of
        Inr (stdout, stderr) \<Rightarrow>
          Inr \<lparr>content = [Text (if stdout \<noteq> [] then stdout else stderr)]\<rparr>
      | Inl error \<Rightarrow>
          Inl (throw_McpError InternalError ''Failed to show model info: '' (formatError error)))"

definition handlePull :: "backend \<Rightarrow> jsval \<Rightarrow> thrown + envelope" where
  "handlePull b args =
     (case and_then (get args ''name'') (\<lambda>name.
           and_then (to_String name) (\<lambda>name_text.
           execAsync b (''ollama pull '' @ name_text))) of
        Inr (stdout, stderr) \<Rightarrow>
          Inr \<lparr>content = [Text (if stdout \<noteq> [] then stdout else stderr)]\<rparr>
      | Inl error \<Rightarrow>
          Inl (throw_McpError InternalError ''Failed to pull model: '' (formatError error)))"

definition handlePush :: "backend \<Rightarrow> jsval \<Rightarrow> thrown + envelope" where
  "handlePush b args =
     (case and_then (get args ''name'') (\<lambda>name.
           and_then (to_String name) (\<lambda>name_text.
           execAsync b (''ollama push '' @ name_text))) of
        Inr (stdout, stderr) \<Rightarrow>
          Inr \<lparr>content = [Text (if stdout \<noteq> [] then stdout else stderr)]\<rparr>
      | Inl error \<Rightarrow>
          Inl (throw_McpError InternalError ''Failed to push model: '' (formatError error)))"

definition handleList :: "backend \<Rightarrow> thrown + envelope" where
  "handleList b =
     (case execAsync b ''ollama list'' of
        Inr (stdout, stderr) \<Rightarrow>
          Inr \<lparr>content = [Text (if stdout \<noteq> [] then stdout else stderr)]\<rparr>
      | Inl error \<Rightarrow>
          Inl (throw_McpError InternalError ''Failed to list models: '' (formatError error)))"

definition handleCopy :: "backend \<Rightarrow> jsval \<Rightarrow> thrown + envelope" where
  "handleCopy b args =
     (case and_then (get args ''source'') (\<lambda>source.
           and_then (to_String source) (\<lambda>source_text.
           and_then (get args ''destination'') (\<lambda>destination.
           and_then (to_String destination) (\<lambda>destination_text.
           execAsync b (''ollama cp '' @ source_text @ '' '' @ destination_text))))) of
        Inr (stdout, stderr) \<Rightarrow>
          Inr \<lparr>content = [Text (if stdout \<noteq> [] then stdout else stderr)]\<rparr>
      | Inl error \<Rightarrow>
          Inl (throw_McpError InternalError ''Failed to copy model: '' (formatError error)))"

definition handleRemove :: "backend \<Rightarrow> jsval \<Rightarrow> thrown + envelope" where
  "handleRemove b args =
     (case and_then (get args ''name'') (\<lambda>name.
           and_then (to_String name) (\<lambda>name_text.
           execAsync b (''ollama rm '' @ name_text))) of
        Inr (stdout, stderr) \<Rightarrow>
          Inr \<lparr>content = [Text (if stdout \<noteq> [] then stdout else stderr)]\<rparr>
      | Inl error \<Rightarrow>
          Inl (throw_McpError InternalError ''Failed to remove model: '' (formatError error)))"

subsection \<open>\<^verbatim>\<open>run\<close>: the streaming call\<close>

text \<open>
  The transform of \<^verbatim>\<open>handleRun\<close>, applied to one chunk:
  \<^verbatim>\<open>
  transform(chunk, controller) {
    try {
      const data = chunk.toString();
      const json = JSON.parse(data);
      controller.enqueue(json.response);
    } catch (error) {
      controller.error(new McpError(ErrorCode.InternalError,
        `Error processing stream: ${formatError(error)}`));
    }
  }
  \<close>
\<close>

datatype transform_result = Enqueue jsval | ControllerError thrown

definition transform :: "(string \<Rightarrow> string + jsval) \<Rightarrow> chunk \<Rightarrow> transform_result" where
  "transform parse chunk =
     (case and_then (case parse (chunk_toString chunk) of
                       Inl message \<Rightarrow> Inl (Error message)
                     | Inr json \<Rightarrow> Inr json)
             (\<lambda>json. get json ''response'') of
        Inr response \<Rightarrow> Enqueue response
      | Inl error \<Rightarrow>
          ControllerError
            (throw_McpError InternalError ''Error processing stream: '' (formatError error)))"

text \<open>
  Piping a web stream through a \<^verbatim>\<open>TransformStream\<close> (a global of Node 18 and
  later): every chunk is transformed in turn and what it enqueues is delivered; once the
  controller is put in error the stream is errored and no later chunk is looked at. When
  the chunks are used up the stream ends as its source \<open>src\<close> does: it closes, or it
  fails with the very error the source failed with.
\<close>

fun pipeThrough ::
  "(chunk \<Rightarrow> transform_result) \<Rightarrow> chunk list \<Rightarrow> stream_end \<Rightarrow> jsval list \<times> stream_end" where
  "pipeThrough t [] src = ([], src)"
| "pipeThrough t (chunk # chunks) src =
     (case t chunk of
        Enqueue v \<Rightarrow> (v # fst (pipeThrough t chunks src), snd (pipeThrough t chunks src))
      | ControllerError e \<Rightarrow> ([], Errored e))"

text \<open>\<^verbatim>\<open>response.data.pipeThrough(transformStream)\<close>, on whatever \<^verbatim>\<open>response.data\<close> is.\<close>

definition data_pipeThrough ::
  "response_data \<Rightarrow> (chunk \<Rightarrow> transform_result) \<Rightarrow> thrown + jsval list \<times> stream_end" where
  "data_pipeThrough d t =
     (case d of
        WebReadable chunks src \<Rightarrow> Inr (pipeThrough t chunks src)
      | NodeReadable \<Rightarrow> Inl (Error ''response.data.pipeThrough is not a function'')
      | Parsed v \<Rightarrow>
          and_then (get v ''pipeThrough'')
            (\<lambda>f. Inl (Error ''response.data.pipeThrough is not a function'')))"

text \<open>
  The \<^verbatim>\<open>catch\<close> of the two HTTP handlers; \<open>what\<close> is the text for an error
  that is no axios error:
  \<^verbatim>\<open>
  if (axios.isAxiosError(error)) {
    throw new McpError(ErrorCode.InternalError,
      `Ollama API error: ${error.response?.data?.error || error.message}`);
  }
  throw new McpError(ErrorCode.InternalError, `Failed to run model: ${formatError(error)}`);
  \<close>
\<close>

definition catch_http :: "string \<Rightarrow> thrown \<Rightarrow> thrown" where
  "catch_http what error =
     (case error of
        AxiosError response_data_error message \<Rightarrow>
          throw_McpError InternalError ''Ollama API error: ''
            (to_String (or_else response_data_error (JStr message)))
      | _ \<Rightarrow> throw_McpError InternalError what (formatError error))"

definition run_request :: "backend \<Rightarrow> jsval \<Rightarrow> jsval \<Rightarrow> jsval \<Rightarrow> request" where
  "run_request b name prompt args_timeout =
     \<lparr>url = OLLAMA_HOST b @ ''/api/generate'',
      data = JObj [(''model'', name), (''prompt'', prompt), (''stream'', JBool True)],
      timeout = or_else args_timeout (JNum DEFAULT_TIMEOUT),
      responseType = Some ''stream''\<rparr>"

definition handleRun :: "backend \<Rightarrow> jsval \<Rightarrow> thrown + envelope" where
  "handleRun b args =
     (case and_then (get args ''name'') (\<lambda>name.
           and_then (get args ''prompt'') (\<lambda>prompt.
           and_then (get args ''timeout'') (\<lambda>args_timeout.
           and_then (axios_post b (run_request b name prompt args_timeout)) (\<lambda>response_data.
           and_then (data_pipeThrough response_data (transform (JSON_parse b))) (\<lambda>piped.
           Inr \<lparr>content = [Stream (fst piped) (snd piped)]\<rparr>))))) of
        Inr result \<Rightarrow> Inr result
      | Inl error \<Rightarrow> Inl (catch_http ''Failed to run model: '' error))"

subsection \<open>\<^verbatim>\<open>chat_completion\<close>: the buffered call\<close>

text \<open>
  The callback of \<^verbatim>\<open>args.messages.map\<close>:
  \<^verbatim>\<open>
  switch (msg.role) {
    case 'system':    return `System: ${msg.content}\n`;
    case 'user':      return `User: ${msg.content}\n`;
    case 'assistant': return `Assistant: ${msg.content}\n`;
    default:          return '';
  }
  \<close>
\<close>

definition message_line :: "jsval \<Rightarrow> thrown + string" where
  "message_line msg =
     and_then (get msg ''role'') (\<lambda>role.
       if role = JStr ''system'' then
         and_then (get msg ''content'') (\<lambda>c.
         and_then (to_String c) (\<lambda>text. Inr (''System: '' @ text @ [LF])))
       else if role = JStr ''user'' then
         and_then (get msg ''content'') (\<lambda>c.
         and_then (to_String c) (\<lambda>text. Inr (''User: '' @ text @ [LF])))
       else if role = JStr ''assistant'' then
         and_then (get msg ''content'') (\<lambda>c.
         and_then (to_String c) (\<lambda>text. Inr (''Assistant: '' @ text @ [LF])))
       else Inr [])"

text \<open>\<^verbatim>\<open>Array.prototype.map\<close> with a callback that may throw.\<close>

fun array_map :: "(jsval \<Rightarrow> thrown + string) \<Rightarrow> jsval list \<Rightarrow> thrown + string list" where
  "array_map f [] = Inr []"
| "array_map f (x # xs) =
     and_then (f x) (\<lambda>y. and_then (array_map f xs) (\<lambda>ys. Inr (y # ys)))"

text \<open>\<^verbatim>\<open>args.messages.map(...).join('')\<close>: only an array has a \<^verbatim>\<open>map\<close> method.\<close>

definition flatten_prompt :: "jsval \<Rightarrow> thrown + string" where
  "flatten_prompt messages =
     (case messages of
        JArr msgs \<Rightarrow> and_then (array_map message_line msgs) (\<lambda>lines. Inr (concat lines))
      | _ \<Rightarrow>
          and_then (get messages ''map'')
            (\<lambda>f. Inl (Error ''args.messages.map is not a function'')))"

definition chat_request :: "backend \<Rightarrow> jsval \<Rightarrow> string \<Rightarrow> jsval \<Rightarrow> jsval \<Rightarrow> request" where
  "chat_request b model prompt temperature args_timeout =
     \<lparr>url = OLLAMA_HOST b @ ''/api/generate'',
      data = JObj [(''model'', model), (''prompt'', JStr prompt), (''stream'', JBool False),
                   (''temperature'', temperature), (''raw'', JBool True)],
      timeout = or_else args_timeout (JNum DEFAULT_TIMEOUT),
      responseType = None\<rparr>"

text \<open>\<^verbatim>\<open>response.data.response\<close>\<close>

definition data_response :: "response_data \<Rightarrow> thrown + jsval" where
  "data_response d =
     (case d of
        Parsed v \<Rightarrow> get v ''response''
      | NodeReadable \<Rightarrow> Inr JUndefined
      | WebReadable chunks src \<Rightarrow> Inr JUndefined)"

text \<open>The object handed to \<^verbatim>\<open>JSON.stringify\<close>; \<open>now0\<close> and \<open>now1\<close> are the two
  readings of \<^verbatim>\<open>Date.now()\<close>, time values in milliseconds.\<close>

definition chat_completion :: "int \<Rightarrow> int \<Rightarrow> jsval \<Rightarrow> jsval \<Rightarrow> (string \<times> jsval) list" where
  "chat_completion now0 now1 model response =
     [(''id'', JStr (''chatcmpl-'' @ Number_toString now0)),
      (''object'', JStr ''chat.completion''),
      (''created'', JNum (now1 div 1000)),
      (''model'', model),
      (''choices'', JArr [JObj
         [(''index'', JNum 0),
          (''message'', JObj [(''role'', JStr ''assistant''), (''content'', response)]),
          (''finish_reason'', JStr ''stop'')]])]"

definition handleChatCompletion :: "backend \<Rightarrow> jsval \<Rightarrow> thrown + envelope" where
  "handleChatCompletion b args =
     (case and_then (get args ''messages'') (\<lambda>messages.
           and_then (flatten_prompt messages) (\<lambda>prompt.
           and_then (get args ''model'') (\<lambda>model.
           and_then (get args ''temperature'') (\<lambda>temperature.
           and_then (get args ''timeout'') (\<lambda>args_timeout.
           and_then (axios_post b (chat_request b model prompt temperature args_timeout))
             (\<lambda>response_data.
           and_then (data_response response_data) (\<lambda>response.
           Inr \<lparr>content =
             [Text (JSON_stringify
                (chat_completion (Date_now b 0) (Date_now b 1) model response))]\<rparr>))))))) of
        Inr result \<Rightarrow> Inr result
      | Inl error \<Rightarrow> Inl (catch_http ''Unexpected error: '' error))"

section \<open>The dispatcher\<close>

text \<open>
  \<^verbatim>\<open>
  try {
    switch (request.params.name) {
      case 'serve': return await this.handleServe();
      ...
      default:
        throw new McpError(ErrorCode.MethodNotFound, `Unknown tool: ${request.params.name}`);
    }
  } catch (error) {
    if (error instanceof McpError) throw error;
    throw new McpError(ErrorCode.InternalError,
      `Error executing ${request.params.name}: ${formatError(error)}`);
  }
  \<close>
  The name of the tool is a string: the request schema of the SDK admits nothing else.
\<close>

record call_request =
  params_name :: string
  params_arguments :: jsval

definition switch_name :: "backend \<Rightarrow> call_request \<Rightarrow> thrown + envelope" where
  "switch_name b request =
     (if params_name request = ''serve'' then handleServe b
      else if params_name request = ''create'' then handleCreate b (params_arguments request)
      else if params_name request = ''show'' then handleShow b (params_arguments request)
      else if params_name request = ''run'' then handleRun b (params_arguments request)
      else if params_name request = ''pull'' then handlePull b (params_arguments request)
      else if params_name request = ''push'' then handlePush b (params_arguments request)
      else if params_name request = ''list'' then handleList b
      else if params_name request = ''cp'' then handleCopy b (params_arguments request)
      else if params_name request = ''rm'' then handleRemove b (params_arguments request)
      else if params_name request = ''chat_completion''
        then handleChatCompletion b (params_arguments request)
      else Inl (McpError MethodNotFound (''Unknown tool: '' @ params_name request)))"

definition CallTool :: "backend \<Rightarrow> call_request \<Rightarrow> thrown + envelope" where
  "CallTool b request =
     (case switch_name b request of
        Inr result \<Rightarrow> Inr result
      | Inl error \<Rightarrow>
          (case error of
             McpError c m \<Rightarrow> Inl error
           | _ \<Rightarrow>
               Inl (throw_McpError InternalError
                      (''Error executing '' @ params_name request @ '': '')
                      (formatError error))))"

section \<open>The schema catalog\<close>

text \<open>
  The answer to \<^verbatim>\<open>ListTools\<close>: for every tool its name, the properties its
  input schema declares and those it requires. Every schema is closed
  (\<^verbatim>\<open>additionalProperties: false\<close>).
\<close>

definition tools :: "(string \<times> string list \<times> string list) list" where
  "tools =
     [(''serve'', [], []),
      (''create'', [''name'', ''modelfile''], [''name'', ''modelfile'']),
      (''show'', [''name'', ''show_flag'', ''verbose''], [''name'']),
      (''run'', [''name'', ''prompt'', ''timeout''], [''name'', ''prompt'']),
      (''pull'', [''name''], [''name'']),
      (''push'', [''name''], [''name'']),
      (''list'', [], []),
      (''cp'', [''source'', ''destination''], [''source'', ''destination'']),
      (''rm'', [''name''], [''name'']),
      (''chat_completion'', [''model'', ''messages'', ''temperature'', ''timeout''],
         [''model'', ''messages''])]"

section \<open>Vocabulary of the statements\<close>

text \<open>
  The specification names four kinds of fault. The program's faults carry an SDK
  \<open>ErrorCode\<close>; \<open>fault_code_of\<close> reads it in the specification's words:
  \<^verbatim>\<open>MethodNotFound\<close> is its \<^emph>\<open>not-found\<close>, \<^verbatim>\<open>InternalError\<close> its
  \<^emph>\<open>internal-error\<close>.
\<close>

datatype fault_code = not_found | invalid_argument | backend_error | internal_error

fun fault_code_of :: "ErrorCode \<Rightarrow> fault_code" where
  "fault_code_of MethodNotFound = not_found"
| "fault_code_of InternalError = internal_error"



text \<open>The names the \<^verbatim>\<open>switch\<close> of the dispatcher knows, those among them whose
  handler runs a command, and those whose handler reads its arguments.\<close>

definition tool_names :: "string list" where
  "tool_names =
     [''serve'', ''create'', ''show'', ''run'', ''pull'', ''push'', ''list'', ''cp'', ''rm'',
      ''chat_completion'']"



text \<open>The value of property \<open>k\<close> of an object with the properties \<open>kvs\<close>.\<close>

definition property :: "(string \<times> jsval) list \<Rightarrow> string \<Rightarrow> jsval" where
  "property kvs k = (case map_of kvs k of None \<Rightarrow> JUndefined | Some v \<Rightarrow> v)"

text \<open>What every process-backed handler makes of the outcome of its command.\<close>

definition text_or_fault :: "string \<Rightarrow> thrown + string \<times> string \<Rightarrow> thrown + envelope" where
  "text_or_fault what outcome =
     (case outcome of
        Inr (stdout, stderr) \<Rightarrow>
          Inr \<lparr>content = [Text (if stdout \<noteq> [] then stdout else stderr)]\<rparr>
      | Inl error \<Rightarrow> Inl (throw_McpError InternalError what (formatError error)))"

text \<open>A chat message as the specification has it, a role and a content, as the object
  the caller sends.\<close>

definition message_object :: "string \<times> string \<Rightarrow> jsval" where
  "message_object m = JObj [(''role'', JStr (fst m)), (''content'', JStr (snd m))]"

text \<open>The line the specification gives for a message: the role label, a colon and a
  space, the content, a line feed; nothing for any other role.\<close>

definition spec_line :: "string \<times> string \<Rightarrow> string" where
  "spec_line m =
     (if fst m = ''system'' then ''System: '' @ snd m @ [LF]
      else if fst m = ''user'' then ''User: '' @ snd m @ [LF]
      else if fst m = ''assistant'' then ''Assistant: '' @ snd m @ [LF]
      else [])"

text \<open>
  Three fragments of a streamed reply, \<^verbatim>\<open>{"response":"He"}\<close>,
  \<^verbatim>\<open>{"response":"llo"}\<close> and \<^verbatim>\<open>{"done":true}\<close>.
\<close>

definition fragment_He :: string where
  "fragment_He = ''{'' @ [DQ] @ ''response'' @ [DQ] @ '':'' @ [DQ] @ ''He'' @ [DQ] @ ''}''"

definition fragment_llo :: string where
  "fragment_llo = ''{'' @ [DQ] @ ''response'' @ [DQ] @ '':'' @ [DQ] @ ''llo'' @ [DQ] @ ''}''"

definition fragment_done :: string where
  "fragment_done = ''{'' @ [DQ] @ ''done'' @ [DQ] @ '':true}''"

text \<open>
  What \<^verbatim>\<open>JSON.parse\<close> gives for the five texts that the runs below hand to it:
  the three fragments, the text \<^verbatim>\<open>null\<close>, and the empty text, for which it throws
  a \<^verbatim>\<open>SyntaxError\<close> with the message \<^verbatim>\<open>Unexpected end of JSON input\<close>. No
  run below parses another text; the table answers one like the empty text.
\<close>

definition parse_fragments :: "string \<Rightarrow> string + jsval" where
  "parse_fragments s =
     (if s = fragment_He then Inr (JObj [(''response'', JStr ''He'')])
      else if s = fragment_llo then Inr (JObj [(''response'', JStr ''llo'')])
      else if s = fragment_done then Inr (JObj [(''done'', JBool True)])
      else if s = ''null'' then Inr JNull
      else Inl ''Unexpected end of JSON input'')"

text \<open>
  A backend for concrete runs. The command succeeds and prints its own command line, so
  the text block of the answer shows what was handed to the shell; the daemon answers
  every request with the payload \<^verbatim>\<open>{response: "hi", done: true}\<close>; the clock stands
  at 1751114169242 ms.
\<close>

definition demo_backend :: backend where
  "demo_backend =
     \<lparr>execAsync = (\<lambda>cmd. Inr (cmd, [])),
      axios_post = (\<lambda>req. Inr (Parsed (JObj [(''response'', JStr ''hi''), (''done'', JBool True)]))),
      JSON_parse = parse_fragments,
      Date_now = (\<lambda>k. 1751114169242),
      env_OLLAMA_HOST = None\<rparr>"

text \<open>What \<^verbatim>\<open>handleRun\<close> makes of the outcome of its request.\<close>

definition run_answer :: "backend \<Rightarrow> thrown + response_data \<Rightarrow> thrown + envelope" where
  "run_answer b outcome =
     (case outcome of
        Inl error \<Rightarrow> Inl (catch_http ''Failed to run model: '' error)
      | Inr d \<Rightarrow>
          (case data_pipeThrough d (transform (JSON_parse b)) of
             Inl error \<Rightarrow> Inl (catch_http ''Failed to run model: '' error)
           | Inr piped \<Rightarrow> Inr \<lparr>content = [Stream (fst piped) (snd piped)]\<rparr>))"

text \<open>What \<^verbatim>\<open>handleChatCompletion\<close> makes of the outcome of its request.\<close>

definition chat_answer :: "backend \<Rightarrow> jsval \<Rightarrow> thrown + response_data \<Rightarrow> thrown + envelope" where
  "chat_answer b model outcome =
     (case outcome of
        Inl error \<Rightarrow> Inl (catch_http ''Unexpected error: '' error)
      | Inr d \<Rightarrow>
          (case data_response d of
             Inl error \<Rightarrow> Inl (catch_http ''Unexpected error: '' error)
           | Inr response \<Rightarrow>
               Inr \<lparr>content =
                 [Text (JSON_stringify
                    (chat_completion (Date_now b 0) (Date_now b 1) model response))]\<rparr>))"

text \<open>
  Further backends for concrete runs. In \<open>failing_backend\<close> every command exits with
  code 1 and the standard error text \<^verbatim>\<open>model not found\<close>; the error Node's
  \<^verbatim>\<open>exec\<close> then rejects with has the message \<^verbatim>\<open>Command failed: \<close>, the
  command line, a line feed and that text.
\<close>

definition failing_backend :: backend where
  "failing_backend =
     demo_backend
       \<lparr>execAsync :=
          (\<lambda>cmd. Inl (Error (''Command failed: '' @ cmd @ [LF] @ ''model not found'')))\<rparr>"

text \<open>In \<open>timeout_backend\<close> no request is answered in time: axios rejects with its
  timeout error, which has no response and names the timeout of the request. In
  \<open>refused_backend\<close> no daemon listens.\<close>

definition timeout_backend :: backend where
  "timeout_backend =
     demo_backend
       \<lparr>axios_post :=
          (\<lambda>req. Inl (case to_String (timeout req) of
                        Inr t \<Rightarrow> AxiosError JUndefined (''timeout of '' @ t @ ''ms exceeded'')
                      | Inl e \<Rightarrow> e))\<rparr>"

definition refused_backend :: backend where
  "refused_backend =
     demo_backend
       \<lparr>axios_post :=
          (\<lambda>req. Inl (AxiosError JUndefined ''connect ECONNREFUSED 127.0.0.1:11434''))\<rparr>"

text \<open>In \<open>echo_backend\<close> the daemon answers with the body of the request it got, as
  the \<^verbatim>\<open>response\<close> field of its payload.\<close>

definition echo_backend :: backend where
  "echo_backend =
     demo_backend \<lparr>axios_post := (\<lambda>req. Inr (Parsed (JObj [(''response'', data req)])))\<rparr>"





section \<open>Facts about the handlers\<close>

lemma get_object [simp]: "get (JObj kvs) k = Inr (property kvs k)"
  by (simp add: property_def)

declare get.simps(3) [simp del]

lemma and_then_Inr [simp]: "and_then (Inr x) f = f x"
  by (simp add: and_then_def)

lemma and_then_Inl [simp]: "and_then (Inl e) f = Inl e"
  by (simp add: and_then_def)


subsection \<open>What a conversion to a string can throw\<close>




lemma throw_McpError_text [simp]: "throw_McpError c what (Inr t) = McpError c (what @ t)"
  by (simp add: throw_McpError_def)



subsection \<open>The process-backed handlers\<close>

lemma handleServe_eq:
  "handleServe b = text_or_fault ''Failed to start Ollama server: '' (execAsync b ''ollama serve'')"
  by (simp add: handleServe_def text_or_fault_def)

lemma handleList_eq:
  "handleList b = text_or_fault ''Failed to list models: '' (execAsync b ''ollama list'')"
  by (simp add: handleList_def text_or_fault_def)

lemma handleCreate_eq:
  "handleCreate b args =
     text_or_fault ''Failed to create model: ''
       (and_then (get args ''name'') (\<lambda>name.
        and_then (to_String name) (\<lambda>name_text.
        and_then (get args ''modelfile'') (\<lambda>modelfile.
        and_then (to_String modelfile) (\<lambda>modelfile_text.
        execAsync b (''ollama create '' @ name_text @ '' -f '' @ modelfile_text))))))"
  by (simp add: handleCreate_def text_or_fault_def)

lemma handleShow_eq:
  "handleShow b args =
     text_or_fault ''Failed to show model info: ''
       (and_then (get args ''name'') (\<lambda>name.
        and_then (to_String name) (\<lambda>name_text.
        and_then (get args ''show_flag'') (\<lambda>show_flag.
        and_then (if truthy show_flag
                  then and_then (to_String show_flag) (\<lambda>flag_text. Inr ('' --'' @ flag_text))
                  else Inr []) (\<lambda>flag.
        and_then (get args ''verbose'') (\<lambda>verbose.
        execAsync b
          (''ollama show '' @ name_text @ flag
           @ (if truthy verbose then '' --verbose'' else []))))))))"
  by (simp add: handleShow_def text_or_fault_def)

lemma handlePull_eq:
  "handlePull b args =
     text_or_fault ''Failed to pull model: ''
       (and_then (get args ''name'') (\<lambda>name.
        and_then (to_String name) (\<lambda>name_text. execAsync b (''ollama pull '' @ name_text))))"
  by (simp add: handlePull_def text_or_fault_def)

lemma handlePush_eq:
  "handlePush b args =
     text_or_fault ''Failed to push model: ''
       (and_then (get args ''name'') (\<lambda>name.
        and_then (to_String name) (\<lambda>name_text. execAsync b (''ollama push '' @ name_text))))"
  by (simp add: handlePush_def text_or_fault_def)

lemma handleCopy_eq:
  "handleCopy b args =
     text_or_fault ''Failed to copy model: ''
       (and_then (get args ''source'') (\<lambda>source.
        and_then (to_String source) (\<lambda>source_text.
        and_then (get args ''destination'') (\<lambda>destination.
        and_then (to_String destination) (\<lambda>destination_text.
        execAsync b (''ollama cp '' @ source_text @ '' '' @ destination_text))))))"
  by (simp add: handleCopy_def text_or_fault_def)

lemma handleRemove_eq:
  "handleRemove b args =
     text_or_fault ''Failed to remove model: ''
       (and_then (get args ''name'') (\<lambda>name.
        and_then (to_String name) (\<lambda>name_text. execAsync b (''ollama rm '' @ name_text))))"
  by (simp add: handleRemove_def text_or_fault_def)

lemmas process_handler_eqs =
  handleServe_eq handleCreate_eq handleShow_eq handlePull_eq handlePush_eq handleList_eq
  handleCopy_eq handleRemove_eq

lemma text_or_fault_Inr:
  "text_or_fault what outcome = Inr r \<Longrightarrow> \<exists>t. content r = [Text t]"
  by (cases outcome) (auto simp: text_or_fault_def)



lemma text_or_fault_Error [simp]:
  "text_or_fault what (Inl (Error m)) = Inl (McpError InternalError (what @ m))"
  by (simp add: text_or_fault_def)

text \<open>With arguments that are strings the command line is plain concatenation.\<close>

lemma handleCreate_strings:
  "property kvs ''name'' = JStr name \<Longrightarrow> property kvs ''modelfile'' = JStr modelfile \<Longrightarrow>
     handleCreate b (JObj kvs)
     = text_or_fault ''Failed to create model: ''
         (execAsync b (''ollama create '' @ name @ '' -f '' @ modelfile))"
  by (simp add: handleCreate_eq)

lemma handleShow_strings:
  "property kvs ''name'' = JStr name \<Longrightarrow> property kvs ''show_flag'' = JStr flag \<Longrightarrow>
     handleShow b (JObj kvs)
     = text_or_fault ''Failed to show model info: ''
         (execAsync b (''ollama show '' @ name @ (if flag \<noteq> [] then '' --'' @ flag else [])
            @ (if truthy (property kvs ''verbose'') then '' --verbose'' else [])))"
  by (simp add: handleShow_eq)

lemma handleShow_no_flag:
  "property kvs ''name'' = JStr name \<Longrightarrow> property kvs ''show_flag'' = JUndefined \<Longrightarrow>
     handleShow b (JObj kvs)
     = text_or_fault ''Failed to show model info: ''
         (execAsync b (''ollama show '' @ name
            @ (if truthy (property kvs ''verbose'') then '' --verbose'' else [])))"
  by (simp add: handleShow_eq)

lemma handlePull_strings:
  "property kvs ''name'' = JStr name \<Longrightarrow>
     handlePull b (JObj kvs)
     = text_or_fault ''Failed to pull model: '' (execAsync b (''ollama pull '' @ name))"
  by (simp add: handlePull_eq)

lemma handlePush_strings:
  "property kvs ''name'' = JStr name \<Longrightarrow>
     handlePush b (JObj kvs)
     = text_or_fault ''Failed to push model: '' (execAsync b (''ollama push '' @ name))"
  by (simp add: handlePush_eq)

lemma handleCopy_strings:
  "property kvs ''source'' = JStr source \<Longrightarrow> property kvs ''destination'' = JStr destination \<Longrightarrow>
     handleCopy b (JObj kvs)
     = text_or_fault ''Failed to copy model: ''
         (execAsync b (''ollama cp '' @ source @ '' '' @ destination))"
  by (simp add: handleCopy_eq)

lemma handleRemove_strings:
  "property kvs ''name'' = JStr name \<Longrightarrow>
     handleRemove b (JObj kvs)
     = text_or_fault ''Failed to remove model: '' (execAsync b (''ollama rm '' @ name))"
  by (simp add: handleRemove_eq)

subsection \<open>The HTTP handlers\<close>




lemma data_pipeThrough_Inr:
  "data_pipeThrough d t = Inr piped \<Longrightarrow>
     \<exists>chunks src. d = WebReadable chunks src \<and> piped = pipeThrough t chunks src"
  by (cases d) (auto simp: data_pipeThrough_def and_then_def split: sum.splits)

lemma handleRun_Inr:
  "handleRun b args = Inr r \<Longrightarrow> \<exists>vs e. content r = [Stream vs e]"
  by (auto simp: handleRun_def and_then_def split: sum.splits)

lemma handleChatCompletion_Inr:
  "handleChatCompletion b args = Inr r \<Longrightarrow> \<exists>t. content r = [Text t]"
  by (auto simp: handleChatCompletion_def and_then_def split: sum.splits)

lemma handleRun_object:
  "handleRun b (JObj kvs) =
     run_answer b
       (axios_post b
          (run_request b (property kvs ''name'') (property kvs ''prompt'')
             (property kvs ''timeout'')))"
  unfolding handleRun_def get_object and_then_Inr run_answer_def
  by (simp add: and_then_def split: sum.splits)

lemma handleChatCompletion_object:
  "handleChatCompletion b (JObj kvs) =
     (case flatten_prompt (property kvs ''messages'') of
        Inl error \<Rightarrow> Inl (catch_http ''Unexpected error: '' error)
      | Inr prompt \<Rightarrow>
          chat_answer b (property kvs ''model'')
            (axios_post b
               (chat_request b (property kvs ''model'') prompt
                  (property kvs ''temperature'') (property kvs ''timeout''))))"
  unfolding handleChatCompletion_def get_object and_then_Inr chat_answer_def
  by (simp add: and_then_def split: sum.splits)

lemma handleChatCompletion_success:
  assumes "handleChatCompletion b args = Inr result"
  shows "\<exists>model prompt temperature args_timeout d response.
           get args ''model'' = Inr model \<and>
           axios_post b (chat_request b model prompt temperature args_timeout) = Inr d \<and>
           data_response d = Inr response \<and>
           result = \<lparr>content = [Text (JSON_stringify
                       (chat_completion (Date_now b 0) (Date_now b 1) model response))]\<rparr>"
  using assms unfolding handleChatCompletion_def and_then_def
  by (auto split: sum.splits) blast

lemma message_line_object: "message_line (message_object m) = Inr (spec_line m)"
  by (simp add: message_line_def message_object_def spec_line_def property_def)

lemma array_map_message_objects:
  "array_map message_line (map message_object ms) = Inr (map spec_line ms)"
  by (induction ms) (simp_all add: message_line_object)

lemma chat_demo:
  "handleChatCompletion demo_backend
     (JObj [(''model'', JStr ''gemma3:1b''),
            (''messages'', JArr [JObj [(''role'', JStr ''user''), (''content'', JStr ''Say hi'')]])])
   = Inr \<lparr>content = [Text (JSON_stringify
       (chat_completion 1751114169242 1751114169242 (JStr ''gemma3:1b'') (JStr ''hi'')))]\<rparr>"
  by (simp add: handleChatCompletion_object chat_answer_def demo_backend_def property_def
      flatten_prompt_def message_line_def data_response_def)

subsection \<open>The stream\<close>





text \<open>The thirteen bytes of the fragment \<^verbatim>\<open>{"done":true}\<close>, as the transform
  reads them.\<close>

lemma Uint8Array_text:
  "chunk_toString (Uint8Array [123, 34, 100, 111, 110, 101, 34, 58, 116, 114, 117, 101, 125])
   = ''123,34,100,111,110,101,34,58,116,114,117,101,125''"
  by (simp add: digits.simps)





subsection \<open>The dispatcher\<close>


lemma switch_name_Inr:
  assumes "switch_name b request = Inr r"
  shows "if params_name request = ''run''
         then \<exists>vs e. content r = [Stream vs e]
         else \<exists>t. content r = [Text t]"
  using assms
  unfolding switch_name_def process_handler_eqs
  by (auto split: if_splits dest!: text_or_fault_Inr handleRun_Inr handleChatCompletion_Inr)









subsection \<open>The catalog\<close>

text \<open>No tool declares a \<^verbatim>\<open>num_predict\<close> property, and \<^verbatim>\<open>run\<close> declares no
  \<^verbatim>\<open>temperature\<close>.\<close>

lemma tools_names: "map fst tools = tool_names"
  by (simp add: tools_def tool_names_def)

lemma num_predict_not_declared:
  "list_all (\<lambda>t. ''num_predict'' \<notin> set (fst (snd t))) tools
   \<and> map_of tools ''run'' = Some ([''name'', ''prompt'', ''timeout''], [''name'', ''prompt''])"
  by (simp add: tools_def)

subsection \<open>Decimal numerals are unambiguous\<close>

lemma digits_not_Nil: "digits n \<noteq> []"
  by (subst digits.simps) simp

lemma digits_small: "n < 10 \<Longrightarrow> digits n = [''0123456789'' ! n]"
  by (subst digits.simps) simp

lemma digits_large:
  "\<not> n < 10 \<Longrightarrow> digits n = digits (n div 10) @ [''0123456789'' ! (n mod 10)]"
  by (subst digits.simps) simp

lemma digit_inj:
  assumes "i < 10" "j < 10" "''0123456789'' ! i = ''0123456789'' ! j"
  shows "i = j"
proof -
  have d: "distinct ''0123456789''" by simp
  from assms show ?thesis using nth_eq_iff_index_eq [OF d, of i j] by simp
qed

lemma digits_inj: "digits n = digits m \<Longrightarrow> n = m"
proof (induction n arbitrary: m rule: digits.induct)
  case (1 n)
  show ?case
  proof (cases "n < 10")
    case True
    show ?thesis
    proof (cases "m < 10")
      case mT: True
      with True "1.prems" show ?thesis by (simp add: digits_small digit_inj)
    next
      case mF: False
      with True "1.prems" digits_not_Nil [of "m div 10"] show ?thesis
        by (simp add: digits_small digits_large)
    qed
  next
    case False
    show ?thesis
    proof (cases "m < 10")
      case mT: True
      with False "1.prems" digits_not_Nil [of "n div 10"] show ?thesis
        by (simp add: digits_small digits_large)
    next
      case mF: False
      from False mF "1.prems"
      have e: "digits (n div 10) = digits (m div 10)"
        and l: "''0123456789'' ! (n mod 10) = ''0123456789'' ! (m mod 10)"
        by (simp_all add: digits_large)
      from "1.IH" [OF False e] have "n div 10 = m div 10" .
      moreover from l have "n mod 10 = m mod 10" by (intro digit_inj) simp_all
      ultimately show ?thesis by (metis div_mult_mod_eq)
    qed
  qed
qed

lemma digit_not_minus:
  assumes "i < 10"
  shows "''0123456789'' ! i \<noteq> CHR ''-''"
proof -
  from assms have "''0123456789'' ! i \<in> set ''0123456789''" by (intro nth_mem) simp
  then show ?thesis by auto
qed

lemma minus_notin_digits: "CHR ''-'' \<notin> set (digits n)"
proof (induction n rule: digits.induct)
  case (1 n)
  show ?case
  proof (cases "n < 10")
    case True
    then show ?thesis using digit_not_minus [of n] by (simp add: digits_small)
  next
    case False
    then show ?thesis using "1.IH" digit_not_minus [of "n mod 10"]
      by (simp add: digits_large)
  qed
qed

text \<open>An integer that a double holds exactly prints as its decimal numeral.\<close>

lemma Number_toString_exact:
  "\<bar>n\<bar> \<le> 9007199254740992 \<Longrightarrow>
     Number_toString n = (if n < 0 then ''-'' else []) @ digits (nat \<bar>n\<bar>)"
proof -
  assume "\<bar>n\<bar> \<le> 9007199254740992"
  then have "nat \<bar>n\<bar> \<le> 9007199254740992" by linarith
  then show ?thesis by (simp add: Number_toString_def)
qed

lemma Number_toString_inj:
  assumes "\<bar>n\<bar> \<le> 9007199254740992" and "\<bar>m\<bar> \<le> 9007199254740992"
  shows "(Number_toString n = Number_toString m) = (n = m)"
proof
  assume e: "Number_toString n = Number_toString m"
  have neg: "\<And>a b. CHR ''-'' # digits a \<noteq> digits b"
    using minus_notin_digits by (metis list.set_intros(1))
  note x = Number_toString_exact [OF assms(1)] Number_toString_exact [OF assms(2)]
  show "n = m"
  proof (cases "n < 0")
    case True
    show ?thesis
    proof (cases "m < 0")
      case mT: True
      with True e x have "digits (nat \<bar>n\<bar>) = digits (nat \<bar>m\<bar>)" by simp
      from digits_inj [OF this] True mT show ?thesis by simp
    next
      case mF: False
      with True e x neg show ?thesis by simp
    qed
  next
    case False
    show ?thesis
    proof (cases "m < 0")
      case mT: True
      with False e x neg [of "nat \<bar>m\<bar>" "nat \<bar>n\<bar>"] show ?thesis by simp
    next
      case mF: False
      with False e x have "digits (nat \<bar>n\<bar>) = digits (nat \<bar>m\<bar>)" by simp
      from digits_inj [OF this] False mF show ?thesis by simp
    qed
  qed
qed simp

section \<open>The claims\<close>




text \<open>
  C2, as the specification states it, fails. The specification asks that an argument
  with shell metacharacters be escaped or the call be rejected before the command line
  is built. The handlers do neither: with a model name that holds a semicolon and a
  hash sign, \<^verbatim>\<open>create\<close> hands the shell a command line in which both stand
  unescaped, and so does \<^verbatim>\<open>cp\<close> with a destination that holds \<^verbatim>\<open>&&\<close>.
  (The demonstration backend prints the command line it was given.)
\<close>

theorem shell_command_unescaped:
  "handleCreate demo_backend
     (JObj [(''name'', JStr ''m; id #''), (''modelfile'', JStr ''Modelfile'')])
   = Inr \<lparr>content = [Text ''ollama create m; id # -f Modelfile'']\<rparr>
   \<and> handleCopy demo_backend (JObj [(''source'', JStr ''a''), (''destination'', JStr ''b && id'')])
   = Inr \<lparr>content = [Text ''ollama cp a b && id'']\<rparr>"
  by (simp add: handleCreate_def handleCopy_def demo_backend_def property_def)

text \<open>
  C2, amended. Called with arguments that are strings, as the schemas of the tools
  declare them, every process-backed operation that takes arguments builds its command
  line by putting each argument value, unchanged, between fixed pieces of text, and hands
  that line to the shell: whatever characters a value holds, nothing is escaped and the
  call is not rejected. (\<^verbatim>\<open>show\<close> adds \<^verbatim>\<open> --\<close> and the flag when the flag is
  not empty, nothing when it is empty or not given, and \<^verbatim>\<open> --verbose\<close> when
  \<^verbatim>\<open>verbose\<close> is truthy.)
\<close>

theorem command_line_verbatim:
  "(property kvs ''name'' = JStr name \<and> property kvs ''modelfile'' = JStr modelfile \<longrightarrow>
      handleCreate b (JObj kvs)
      = text_or_fault ''Failed to create model: ''
          (execAsync b (''ollama create '' @ name @ '' -f '' @ modelfile)))
   \<and> (property kvs ''name'' = JStr name \<and> property kvs ''show_flag'' = JStr flag \<longrightarrow>
      handleShow b (JObj kvs)
      = text_or_fault ''Failed to show model info: ''
          (execAsync b (''ollama show '' @ name @ (if flag \<noteq> [] then '' --'' @ flag else [])
             @ (if truthy (property kvs ''verbose'') then '' --verbose'' else []))))
   \<and> (property kvs ''name'' = JStr name \<and> property kvs ''show_flag'' = JUndefined \<longrightarrow>
      handleShow b (JObj kvs)
      = text_or_fault ''Failed to show model info: ''
          (execAsync b (''ollama show '' @ name
             @ (if truthy (property kvs ''verbose'') then '' --verbose'' else []))))
   \<and> (property kvs ''name'' = JStr name \<longrightarrow>
      handlePull b (JObj kvs)
      = text_or_fault ''Failed to pull model: '' (execAsync b (''ollama pull '' @ name)))
   \<and> (property kvs ''name'' = JStr name \<longrightarrow>
      handlePush b (JObj kvs)
      = text_or_fault ''Failed to push model: '' (execAsync b (''ollama push '' @ name)))
   \<and> (property kvs ''source'' = JStr source \<and> property kvs ''destination'' = JStr destination \<longrightarrow>
      handleCopy b (JObj kvs)
      = text_or_fault ''Failed to copy model: ''
          (execAsync b (''ollama cp '' @ source @ '' '' @ destination)))
   \<and> (property kvs ''name'' = JStr name \<longrightarrow>
      handleRemove b (JObj kvs)
      = text_or_fault ''Failed to remove model: '' (execAsync b (''ollama rm '' @ name)))"
  by (simp add: handleCreate_strings handleShow_strings handleShow_no_flag handlePull_strings
      handlePush_strings handleCopy_strings handleRemove_strings)

text \<open>One set of arguments for the six operations, with a pipe sign in the name and a
  semicolon in the destination, and \<^verbatim>\<open>show\<close> once more without a flag.\<close>

theorem command_line_verbatim_witness:
  "handleCreate demo_backend
     (JObj [(''name'', JStr ''llama2 | tee x''), (''modelfile'', JStr ''./Modelfile''),
            (''show_flag'', JStr ''license''), (''verbose'', JBool True),
            (''source'', JStr ''llama2''), (''destination'', JStr ''mine; id'')])
   = Inr \<lparr>content = [Text ''ollama create llama2 | tee x -f ./Modelfile'']\<rparr>
   \<and> handleShow demo_backend
     (JObj [(''name'', JStr ''llama2 | tee x''), (''modelfile'', JStr ''./Modelfile''),
            (''show_flag'', JStr ''license''), (''verbose'', JBool True),
            (''source'', JStr ''llama2''), (''destination'', JStr ''mine; id'')])
   = Inr \<lparr>content = [Text ''ollama show llama2 | tee x --license --verbose'']\<rparr>
   \<and> handlePull demo_backend
     (JObj [(''name'', JStr ''llama2 | tee x''), (''modelfile'', JStr ''./Modelfile''),
            (''show_flag'', JStr ''license''), (''verbose'', JBool True),
            (''source'', JStr ''llama2''), (''destination'', JStr ''mine; id'')])
   = Inr \<lparr>content = [Text ''ollama pull llama2 | tee x'']\<rparr>
   \<and> handlePush demo_backend
     (JObj [(''name'', JStr ''llama2 | tee x''), (''modelfile'', JStr ''./Modelfile''),
            (''show_flag'', JStr ''license''), (''verbose'', JBool True),
            (''source'', JStr ''llama2''), (''destination'', JStr ''mine; id'')])
   = Inr \<lparr>content = [Text ''ollama push llama2 | tee x'']\<rparr>
   \<and> handleCopy demo_backend
     (JObj [(''name'', JStr ''llama2 | tee x''), (''modelfile'', JStr ''./Modelfile''),
            (''show_flag'', JStr ''license''), (''verbose'', JBool True),
            (''source'', JStr ''llama2''), (''destination'', JStr ''mine; id'')])
   = Inr \<lparr>content = [Text ''ollama cp llama2 mine; id'']\<rparr>
   \<and> handleRemove demo_backend
     (JObj [(''name'', JStr ''llama2 | tee x''), (''modelfile'', JStr ''./Modelfile''),
            (''show_flag'', JStr ''license''), (''verbose'', JBool True),
            (''source'', JStr ''llama2''), (''destination'', JStr ''mine; id'')])
   = Inr \<lparr>content = [Text ''ollama rm llama2 | tee x'']\<rparr>
   \<and> handleShow demo_backend (JObj [(''name'', JStr ''llama2 | tee x'')])
   = Inr \<lparr>content = [Text ''ollama show llama2 | tee x'']\<rparr>"
  using command_line_verbatim
          [where b = demo_backend and name = "''llama2 | tee x''" and modelfile = "''./Modelfile''"
             and flag = "''license''" and source = "''llama2''" and destination = "''mine; id''"
             and kvs = "[(''name'', JStr ''llama2 | tee x''), (''modelfile'', JStr ''./Modelfile''),
                         (''show_flag'', JStr ''license''), (''verbose'', JBool True),
                         (''source'', JStr ''llama2''), (''destination'', JStr ''mine; id'')]"]
        command_line_verbatim
          [where b = demo_backend and name = "''llama2 | tee x''"
             and kvs = "[(''name'', JStr ''llama2 | tee x'')]"]
  by (simp add: text_or_fault_def demo_backend_def property_def)

text \<open>
  C3, as the specification states it, fails in one point, the code of the fault. When
  \<^verbatim>\<open>ollama pull nomodel\<close> exits with code 1 and the error text
  \<^verbatim>\<open>model not found\<close>, the fault does carry that text, but its code is
  \<^verbatim>\<open>InternalError\<close>, the specification's \<^emph>\<open>internal-error\<close>, not
  \<^emph>\<open>backend-error\<close>. The program has one code for every failure of a handler.
\<close>

theorem subprocess_failure_code:
  "handlePull failing_backend (JObj [(''name'', JStr ''nomodel'')])
   = Inl (McpError InternalError
       (''Failed to pull model: Command failed: ollama pull nomodel'' @ [LF] @ ''model not found''))
   \<and> fault_code_of InternalError = internal_error
   \<and> fault_code_of InternalError \<noteq> backend_error"
  by (simp add: handlePull_def failing_backend_def demo_backend_def property_def)

text \<open>
  C3, amended. For every process-backed operation, called with arguments that are strings
  where it takes any, when the command fails (a non-zero exit or a failure to spawn, for
  which \<^verbatim>\<open>execAsync\<close> throws an error), the operation ends with a fault of code
  \<^verbatim>\<open>InternalError\<close> whose message is the operation's own \<^verbatim>\<open>Failed to ...: \<close>
  followed by the message of the thrown error. So a command that exits with code 1 and
  the error text \<^verbatim>\<open>model not found\<close> gives a fault whose message contains
  \<^verbatim>\<open>model not found\<close>.
\<close>

theorem subprocess_failure_fault:
  assumes "\<And>cmd. execAsync b cmd = Inl (Error (failure cmd))"
  shows "handleServe b
     = Inl (McpError InternalError (''Failed to start Ollama server: '' @ failure ''ollama serve''))
   \<and> (property kvs ''name'' = JStr name \<and> property kvs ''modelfile'' = JStr modelfile \<longrightarrow>
      handleCreate b (JObj kvs)
      = Inl (McpError InternalError
          (''Failed to create model: ''
           @ failure (''ollama create '' @ name @ '' -f '' @ modelfile))))
   \<and> (property kvs ''name'' = JStr name \<and> property kvs ''show_flag'' = JStr flag \<longrightarrow>
      handleShow b (JObj kvs)
      = Inl (McpError InternalError
          (''Failed to show model info: ''
           @ failure (''ollama show '' @ name @ (if flag \<noteq> [] then '' --'' @ flag else [])
               @ (if truthy (property kvs ''verbose'') then '' --verbose'' else [])))))
   \<and> (property kvs ''name'' = JStr name \<and> property kvs ''show_flag'' = JUndefined \<longrightarrow>
      handleShow b (JObj kvs)
      = Inl (McpError InternalError
          (''Failed to show model info: ''
           @ failure (''ollama show '' @ name
               @ (if truthy (property kvs ''verbose'') then '' --verbose'' else [])))))
   \<and> (property kvs ''name'' = JStr name \<longrightarrow>
      handlePull b (JObj kvs)
      = Inl (McpError InternalError
          (''Failed to pull model: '' @ failure (''ollama pull '' @ name))))
   \<and> (property kvs ''name'' = JStr name \<longrightarrow>
      handlePush b (JObj kvs)
      = Inl (McpError InternalError
          (''Failed to push model: '' @ failure (''ollama push '' @ name))))
   \<and> handleList b
     = Inl (McpError InternalError (''Failed to list models: '' @ failure ''ollama list''))
   \<and> (property kvs ''source'' = JStr source \<and> property kvs ''destination'' = JStr destination \<longrightarrow>
      handleCopy b (JObj kvs)
      = Inl (McpError InternalError
          (''Failed to copy model: ''
           @ failure (''ollama cp '' @ source @ '' '' @ destination))))
   \<and> (property kvs ''name'' = JStr name \<longrightarrow>
      handleRemove b (JObj kvs)
      = Inl (McpError InternalError
          (''Failed to remove model: '' @ failure (''ollama rm '' @ name))))"
  by (simp add: handleServe_eq handleList_eq handleCreate_strings handleShow_strings
      handleShow_no_flag handlePull_strings handlePush_strings handleCopy_strings
      handleRemove_strings assms)

text \<open>Every command exits with code 1 and the error text \<^verbatim>\<open>model not found\<close>.\<close>

theorem subprocess_failure_fault_witness:
  "handlePull failing_backend (JObj [(''name'', JStr ''nomodel'')])
   = Inl (McpError InternalError
       (''Failed to pull model: Command failed: ollama pull nomodel'' @ [LF] @ ''model not found''))
   \<and> sublist ''model not found''
       (''Failed to pull model: Command failed: ollama pull nomodel'' @ [LF] @ ''model not found'')
   \<and> handleShow failing_backend (JObj [(''name'', JStr ''nomodel'')])
   = Inl (McpError InternalError
       (''Failed to show model info: Command failed: ollama show nomodel'' @ [LF]
        @ ''model not found''))
   \<and> handleServe failing_backend
   = Inl (McpError InternalError
       (''Failed to start Ollama server: Command failed: ollama serve'' @ [LF]
        @ ''model not found''))
   \<and> handleCopy failing_backend
       (JObj [(''name'', JStr ''nomodel''), (''modelfile'', JStr ''f''),
              (''show_flag'', JStr ''system''), (''source'', JStr ''nomodel''),
              (''destination'', JStr ''copy'')])
   = Inl (McpError InternalError
       (''Failed to copy model: Command failed: ollama cp nomodel copy'' @ [LF]
        @ ''model not found''))
   \<and> handleShow failing_backend
       (JObj [(''name'', JStr ''nomodel''), (''modelfile'', JStr ''f''),
              (''show_flag'', JStr ''system''), (''source'', JStr ''nomodel''),
              (''destination'', JStr ''copy'')])
   = Inl (McpError InternalError
       (''Failed to show model info: Command failed: ollama show nomodel --system'' @ [LF]
        @ ''model not found''))"
proof -
  have h: "\<And>cmd. execAsync failing_backend cmd
             = Inl (Error (''Command failed: '' @ cmd @ [LF] @ ''model not found''))"
    by (simp add: failing_backend_def)
  note t = subprocess_failure_fault
         [of failing_backend "\<lambda>cmd. ''Command failed: '' @ cmd @ [LF] @ ''model not found''",
          OF h]
  from t [where kvs = "[(''name'', JStr ''nomodel'')]" and name = "''nomodel''"]
  have a: "handlePull failing_backend (JObj [(''name'', JStr ''nomodel'')])
        = Inl (McpError InternalError
            (''Failed to pull model: Command failed: ollama pull nomodel'' @ [LF]
             @ ''model not found''))
     \<and> handleShow failing_backend (JObj [(''name'', JStr ''nomodel'')])
        = Inl (McpError InternalError
            (''Failed to show model info: Command failed: ollama show nomodel'' @ [LF]
             @ ''model not found''))
     \<and> handleServe failing_backend
        = Inl (McpError InternalError
            (''Failed to start Ollama server: Command failed: ollama serve'' @ [LF]
             @ ''model not found''))"
    by (simp add: property_def)
  from t [where kvs = "[(''name'', JStr ''nomodel''), (''modelfile'', JStr ''f''),
                        (''show_flag'', JStr ''system''), (''source'', JStr ''nomodel''),
                        (''destination'', JStr ''copy'')]"
      and name = "''nomodel''" and modelfile = "''f''" and flag = "''system''"
      and source = "''nomodel''" and destination = "''copy''"]
  have b: "handleCopy failing_backend
       (JObj [(''name'', JStr ''nomodel''), (''modelfile'', JStr ''f''),
              (''show_flag'', JStr ''system''), (''source'', JStr ''nomodel''),
              (''destination'', JStr ''copy'')])
        = Inl (McpError InternalError
            (''Failed to copy model: Command failed: ollama cp nomodel copy'' @ [LF]
             @ ''model not found''))
     \<and> handleShow failing_backend
       (JObj [(''name'', JStr ''nomodel''), (''modelfile'', JStr ''f''),
              (''show_flag'', JStr ''system''), (''source'', JStr ''nomodel''),
              (''destination'', JStr ''copy'')])
        = Inl (McpError InternalError
            (''Failed to show model info: Command failed: ollama show nomodel --system'' @ [LF]
             @ ''model not found''))"
    by (simp add: property_def)
  have "sublist ''model not found''
       ((''Failed to pull model: Command failed: ollama pull nomodel'' @ [LF])
        @ ''model not found'')"
    by (rule sublist_append_leftI)
  with a b show ?thesis by simp
qed




text \<open>
  C5, as the specification states it, fails in one point, the code of the fault. A
  \<^verbatim>\<open>run\<close> call without a timeout of its own is sent with the timeout 60000; when
  axios gives up after that time, the call ends with a fault whose message names the
  timeout, but whose code is \<^verbatim>\<open>InternalError\<close>, the specification's
  \<^emph>\<open>internal-error\<close>, not \<^emph>\<open>backend-error\<close>.
\<close>

theorem timeout_fault_code:
  "handleRun timeout_backend (JObj [(''name'', JStr ''m''), (''prompt'', JStr ''p'')])
   = Inl (McpError InternalError ''Ollama API error: timeout of 60000ms exceeded'')
   \<and> fault_code_of InternalError = internal_error
   \<and> fault_code_of InternalError \<noteq> backend_error"
  by (simp add: handleRun_object run_answer_def timeout_backend_def demo_backend_def
      property_def run_request_def or_else_def DEFAULT_TIMEOUT_def catch_http_def
      Number_toString_def digits.simps)

text \<open>
  C5, amended. Both HTTP calls are sent with a timeout: the caller's \<^verbatim>\<open>timeout\<close>
  argument when it is truthy, 60000 ms otherwise. When axios gives up on the request (an
  axios error without a response), the call ends with a fault of code
  \<^verbatim>\<open>InternalError\<close> whose message is \<^verbatim>\<open>Ollama API error: \<close> followed by the
  message of the axios error. A failure of the network ends with the same code, so the
  two faults differ exactly when the messages of the axios errors differ: a timeout can
  be told from another failure by the message, not by the code.
\<close>

theorem http_timeout:
  "timeout (run_request b name prompt t) = (if truthy t then t else JNum 60000)
   \<and> timeout (chat_request b model p temperature t) = (if truthy t then t else JNum 60000)
   \<and> (axios_post b
         (run_request b (property kvs ''name'') (property kvs ''prompt'')
            (property kvs ''timeout''))
       = Inl (AxiosError JUndefined msg) \<longrightarrow>
      handleRun b (JObj kvs) = Inl (McpError InternalError (''Ollama API error: '' @ msg)))
   \<and> (flatten_prompt (property kvs ''messages'') = Inr p
       \<and> axios_post b
           (chat_request b (property kvs ''model'') p (property kvs ''temperature'')
              (property kvs ''timeout''))
         = Inl (AxiosError JUndefined msg) \<longrightarrow>
      handleChatCompletion b (JObj kvs)
      = Inl (McpError InternalError (''Ollama API error: '' @ msg)))
   \<and> ((catch_http what (AxiosError JUndefined msg) = catch_http what (AxiosError JUndefined msg'))
       = (msg = msg'))"
  by (simp add: run_request_def chat_request_def or_else_def DEFAULT_TIMEOUT_def
      handleRun_object handleChatCompletion_object run_answer_def chat_answer_def
      catch_http_def)

text \<open>A \<^verbatim>\<open>run\<close> call with a timeout of two minutes that times out, and a
  \<^verbatim>\<open>chat_completion\<close> call that finds no daemon.\<close>

theorem http_timeout_witness:
  "handleRun timeout_backend
     (JObj [(''name'', JStr ''m''), (''prompt'', JStr ''p''), (''timeout'', JNum 120000)])
   = Inl (McpError InternalError ''Ollama API error: timeout of 120000ms exceeded'')
   \<and> handleChatCompletion refused_backend
     (JObj [(''model'', JStr ''m''), (''messages'', JArr [])])
   = Inl (McpError InternalError ''Ollama API error: connect ECONNREFUSED 127.0.0.1:11434'')"
proof -
  have r: "axios_post timeout_backend
         (run_request timeout_backend
            (property [(''name'', JStr ''m''), (''prompt'', JStr ''p''), (''timeout'', JNum 120000)]
               ''name'')
            (property [(''name'', JStr ''m''), (''prompt'', JStr ''p''), (''timeout'', JNum 120000)]
               ''prompt'')
            (property [(''name'', JStr ''m''), (''prompt'', JStr ''p''), (''timeout'', JNum 120000)]
               ''timeout''))
       = Inl (AxiosError JUndefined ''timeout of 120000ms exceeded'')"
    by (simp add: timeout_backend_def property_def run_request_def or_else_def
        Number_toString_def digits.simps)
  have c: "flatten_prompt (property [(''model'', JStr ''m''), (''messages'', JArr [])] ''messages'')
             = Inr []
       \<and> axios_post refused_backend
           (chat_request refused_backend
              (property [(''model'', JStr ''m''), (''messages'', JArr [])] ''model'') []
              (property [(''model'', JStr ''m''), (''messages'', JArr [])] ''temperature'')
              (property [(''model'', JStr ''m''), (''messages'', JArr [])] ''timeout''))
         = Inl (AxiosError JUndefined ''connect ECONNREFUSED 127.0.0.1:11434'')"
    by (simp add: refused_backend_def property_def flatten_prompt_def)
  note t = http_timeout
  from t [where b = timeout_backend
      and kvs = "[(''name'', JStr ''m''), (''prompt'', JStr ''p''), (''timeout'', JNum 120000)]"
      and msg = "''timeout of 120000ms exceeded''"] r
  have a: "handleRun timeout_backend
     (JObj [(''name'', JStr ''m''), (''prompt'', JStr ''p''), (''timeout'', JNum 120000)])
   = Inl (McpError InternalError ''Ollama API error: timeout of 120000ms exceeded'')"
    by simp
  from t [where b = refused_backend and kvs = "[(''model'', JStr ''m''), (''messages'', JArr [])]"
      and p = "[]" and msg = "''connect ECONNREFUSED 127.0.0.1:11434''"] c
  have b: "handleChatCompletion refused_backend
     (JObj [(''model'', JStr ''m''), (''messages'', JArr [])])
   = Inl (McpError InternalError ''Ollama API error: connect ECONNREFUSED 127.0.0.1:11434'')"
    by simp
  from a b show ?thesis by simp
qed

text \<open>
  C6. For every list of chat messages, each a role and a content, the adapter's prompt
  is the concatenation, in list order, of one line per message: \<^verbatim>\<open>System: \<close>,
  \<^verbatim>\<open>User: \<close> or \<^verbatim>\<open>Assistant: \<close>, the content and a line feed for the three
  roles, and nothing for a message of any other role; building it never throws. The
  system message "Be terse" followed by the user message "2+2?" gives the two lines
  \<^verbatim>\<open>System: Be terse\<close> and \<^verbatim>\<open>User: 2+2?\<close>, each ended by a line feed.
\<close>

theorem flatten_prompt_lines:
  "flatten_prompt (JArr (map message_object ms)) = Inr (concat (map spec_line ms))
   \<and> flatten_prompt
        (JArr [JObj [(''role'', JStr ''system''), (''content'', JStr ''Be terse'')],
               JObj [(''role'', JStr ''user''), (''content'', JStr ''2+2?'')]])
      = Inr (''System: Be terse'' @ [LF] @ ''User: 2+2?'' @ [LF])"
proof
  show "flatten_prompt (JArr (map message_object ms)) = Inr (concat (map spec_line ms))"
    by (simp add: flatten_prompt_def array_map_message_objects)
next
  have "flatten_prompt
          (JArr (map message_object [(''system'', ''Be terse''), (''user'', ''2+2?'')]))
        = Inr (concat (map spec_line [(''system'', ''Be terse''), (''user'', ''2+2?'')]))"
    by (simp only: flatten_prompt_def jsval.case array_map_message_objects and_then_Inr)
  then show "flatten_prompt
        (JArr [JObj [(''role'', JStr ''system''), (''content'', JStr ''Be terse'')],
               JObj [(''role'', JStr ''user''), (''content'', JStr ''2+2?'')]])
      = Inr (''System: Be terse'' @ [LF] @ ''User: 2+2?'' @ [LF])"
    by (simp add: message_object_def spec_line_def)
qed

text \<open>A message with a role outside the three, between two others, leaves no trace.\<close>

theorem flatten_prompt_lines_witness:
  "flatten_prompt
     (JArr (map message_object [(''user'', ''a''), (''tool'', ''b''), (''assistant'', ''c'')]))
   = Inr (''User: a'' @ [LF] @ ''Assistant: c'' @ [LF])"
  using flatten_prompt_lines [of "[(''user'', ''a''), (''tool'', ''b''), (''assistant'', ''c'')]"]
  by (simp add: spec_line_def)

text \<open>
  C7, as the specification states it, fails in one point: the integer of the id is not
  distinct from call to call. It is the reading of the clock in milliseconds, so two
  calls that read the same millisecond, here one for the model \<^verbatim>\<open>a\<close> and one for
  the model \<^verbatim>\<open>b\<close>, get the same id.
\<close>

theorem completion_id_shared:
  "handleChatCompletion demo_backend (JObj [(''model'', JStr ''a''), (''messages'', JArr [])])
   = Inr \<lparr>content = [Text (JSON_stringify
       (chat_completion 1751114169242 1751114169242 (JStr ''a'') (JStr ''hi'')))]\<rparr>
   \<and> handleChatCompletion demo_backend (JObj [(''model'', JStr ''b''), (''messages'', JArr [])])
   = Inr \<lparr>content = [Text (JSON_stringify
       (chat_completion 1751114169242 1751114169242 (JStr ''b'') (JStr ''hi'')))]\<rparr>
   \<and> property (chat_completion 1751114169242 1751114169242 (JStr ''a'') (JStr ''hi'')) ''id''
     = JStr ''chatcmpl-1751114169242''
   \<and> property (chat_completion 1751114169242 1751114169242 (JStr ''b'') (JStr ''hi'')) ''id''
     = JStr ''chatcmpl-1751114169242''"
  by (simp add: handleChatCompletion_object chat_answer_def demo_backend_def property_def
      flatten_prompt_def data_response_def chat_completion_def Number_toString_def digits.simps)

text \<open>
  C7, amended. Every \<^verbatim>\<open>chat_completion\<close> call that succeeds returns one text
  block, the JSON text of a completion object in which: \<^verbatim>\<open>id\<close> is
  \<^verbatim>\<open>chatcmpl-\<close> followed by the decimal numeral of the clock reading in
  milliseconds, so that the ids of two calls are equal exactly when their clock readings
  are; \<^verbatim>\<open>created\<close> is the clock reading in whole seconds; \<^verbatim>\<open>model\<close> is
  the model argument of the call, handed back; \<^verbatim>\<open>choices\<close> holds exactly one
  choice, with index 0, the message of role \<^verbatim>\<open>assistant\<close> whose content is the
  \<^verbatim>\<open>response\<close> field of the daemon's payload, and the finish reason
  \<^verbatim>\<open>stop\<close>, whatever the payload says about how generation ended. (A clock
  reading is a time value: a whole number of milliseconds from 0 to 8640000000000000.)
\<close>

theorem chat_completion_result:
  assumes "handleChatCompletion b args = Inr result"
    and "handleChatCompletion b' args' = Inr result'"
    and "0 \<le> Date_now b 0 \<and> Date_now b 0 \<le> 8640000000000000"
    and "0 \<le> Date_now b 1 \<and> Date_now b 1 \<le> 8640000000000000"
    and "0 \<le> Date_now b' 0 \<and> Date_now b' 0 \<le> 8640000000000000"
  shows "\<exists>model prompt temperature args_timeout d response completion model' response' completion'.
           get args ''model'' = Inr model \<and>
           axios_post b (chat_request b model prompt temperature args_timeout) = Inr d \<and>
           data_response d = Inr response \<and>
           content result = [Text (JSON_stringify completion)] \<and>
           completion = chat_completion (Date_now b 0) (Date_now b 1) model response \<and>
           property completion ''id'' = JStr (''chatcmpl-'' @ digits (nat (Date_now b 0))) \<and>
           property completion ''created'' = JNum (Date_now b 1 div 1000) \<and>
           property completion ''model'' = model \<and>
           property completion ''choices''
             = JArr [JObj [(''index'', JNum 0),
                           (''message'', JObj [(''role'', JStr ''assistant''),
                                               (''content'', response)]),
                           (''finish_reason'', JStr ''stop'')]] \<and>
           content result' = [Text (JSON_stringify completion')] \<and>
           completion' = chat_completion (Date_now b' 0) (Date_now b' 1) model' response' \<and>
           (property completion ''id'' = property completion' ''id'')
             = (Date_now b 0 = Date_now b' 0)"
proof -
  from handleChatCompletion_success [OF assms(1)]
  obtain model prompt temperature args_timeout d response where
    h: "get args ''model'' = Inr model"
       "axios_post b (chat_request b model prompt temperature args_timeout) = Inr d"
       "data_response d = Inr response"
       "result = \<lparr>content = [Text (JSON_stringify
                   (chat_completion (Date_now b 0) (Date_now b 1) model response))]\<rparr>"
    by blast
  from handleChatCompletion_success [OF assms(2)]
  obtain model' response' where
    h': "result' = \<lparr>content = [Text (JSON_stringify
                   (chat_completion (Date_now b' 0) (Date_now b' 1) model' response'))]\<rparr>"
    by blast
  have f: "property (chat_completion n0 n1 m r) ''id'' = JStr (''chatcmpl-'' @ Number_toString n0)
     \<and> property (chat_completion n0 n1 m r) ''created'' = JNum (n1 div 1000)
     \<and> property (chat_completion n0 n1 m r) ''model'' = m
     \<and> property (chat_completion n0 n1 m r) ''choices''
         = JArr [JObj [(''index'', JNum 0),
                       (''message'', JObj [(''role'', JStr ''assistant''), (''content'', r)]),
                       (''finish_reason'', JStr ''stop'')]]" for n0 n1 m r
    by (simp add: chat_completion_def property_def)
  from assms(3) have r: "\<bar>Date_now b 0\<bar> \<le> 9007199254740992" by simp
  from assms(5) have r': "\<bar>Date_now b' 0\<bar> \<le> 9007199254740992" by simp
  from assms(3) Number_toString_exact [OF r]
  have n: "Number_toString (Date_now b 0) = digits (nat (Date_now b 0))" by simp
  have i: "(property (chat_completion (Date_now b 0) (Date_now b 1) model response) ''id''
            = property (chat_completion (Date_now b' 0) (Date_now b' 1) model' response') ''id'')
           = (Date_now b 0 = Date_now b' 0)"
    using f Number_toString_inj [OF r r'] by simp
  from h(4) have c: "content result = [Text (JSON_stringify
                   (chat_completion (Date_now b 0) (Date_now b 1) model response))]" by simp
  from h' have c': "content result' = [Text (JSON_stringify
                   (chat_completion (Date_now b' 0) (Date_now b' 1) model' response'))]" by simp
  from f [of "Date_now b 0" "Date_now b 1" model response] n
  have g: "property (chat_completion (Date_now b 0) (Date_now b 1) model response) ''id''
             = JStr (''chatcmpl-'' @ digits (nat (Date_now b 0)))
     \<and> property (chat_completion (Date_now b 0) (Date_now b 1) model response) ''created''
         = JNum (Date_now b 1 div 1000)
     \<and> property (chat_completion (Date_now b 0) (Date_now b 1) model response) ''model'' = model
     \<and> property (chat_completion (Date_now b 0) (Date_now b 1) model response) ''choices''
         = JArr [JObj [(''index'', JNum 0),
                       (''message'', JObj [(''role'', JStr ''assistant''),
                                           (''content'', response)]),
                       (''finish_reason'', JStr ''stop'')]]"
    by simp
  from h(1-3) c c' g i show ?thesis by blast
qed

text \<open>
  Two calls answered with the payload \<^verbatim>\<open>{response: "hi", done: true}\<close>, the first
  at clock reading 1751114169242 ms, the second one millisecond later.
\<close>

theorem chat_completion_result_witness:
  "handleChatCompletion demo_backend
     (JObj [(''model'', JStr ''gemma3:1b''),
            (''messages'', JArr [JObj [(''role'', JStr ''user''), (''content'', JStr ''Say hi'')]])])
   = Inr \<lparr>content = [Text (JSON_stringify
       (chat_completion 1751114169242 1751114169242 (JStr ''gemma3:1b'') (JStr ''hi'')))]\<rparr>
   \<and> handleChatCompletion (demo_backend \<lparr>Date_now := (\<lambda>k. 1751114169243)\<rparr>)
     (JObj [(''model'', JStr ''gemma3:1b''),
            (''messages'', JArr [JObj [(''role'', JStr ''user''), (''content'', JStr ''Say hi'')]])])
   = Inr \<lparr>content = [Text (JSON_stringify
       (chat_completion 1751114169243 1751114169243 (JStr ''gemma3:1b'') (JStr ''hi'')))]\<rparr>
   \<and> (\<exists>completion completion'.
        [Text (JSON_stringify
           (chat_completion 1751114169242 1751114169242 (JStr ''gemma3:1b'') (JStr ''hi'')))]
          = [Text (JSON_stringify completion)]
        \<and> property completion ''id'' = JStr ''chatcmpl-1751114169242''
        \<and> property completion ''created'' = JNum 1751114169
        \<and> [Text (JSON_stringify
           (chat_completion 1751114169243 1751114169243 (JStr ''gemma3:1b'') (JStr ''hi'')))]
          = [Text (JSON_stringify completion')]
        \<and> property completion ''id'' \<noteq> property completion' ''id'')"
proof -
  note h = chat_demo
  have h': "handleChatCompletion (demo_backend \<lparr>Date_now := (\<lambda>k. 1751114169243)\<rparr>)
     (JObj [(''model'', JStr ''gemma3:1b''),
            (''messages'', JArr [JObj [(''role'', JStr ''user''), (''content'', JStr ''Say hi'')]])])
   = Inr \<lparr>content = [Text (JSON_stringify
       (chat_completion 1751114169243 1751114169243 (JStr ''gemma3:1b'') (JStr ''hi'')))]\<rparr>"
    by (simp add: handleChatCompletion_object chat_answer_def demo_backend_def property_def
        flatten_prompt_def message_line_def data_response_def)
  have t0: "0 \<le> Date_now demo_backend 0 \<and> Date_now demo_backend 0 \<le> 8640000000000000"
    by (simp add: demo_backend_def)
  have t1: "0 \<le> Date_now demo_backend 1 \<and> Date_now demo_backend 1 \<le> 8640000000000000"
    by (simp add: demo_backend_def)
  have t2: "0 \<le> Date_now (demo_backend \<lparr>Date_now := (\<lambda>k. 1751114169243)\<rparr>) 0
     \<and> Date_now (demo_backend \<lparr>Date_now := (\<lambda>k. 1751114169243)\<rparr>) 0 \<le> 8640000000000000"
    by simp
  from chat_completion_result [OF h h' t0 t1 t2]
  obtain completion completion' where
    "content \<lparr>content = [Text (JSON_stringify
       (chat_completion 1751114169242 1751114169242 (JStr ''gemma3:1b'') (JStr ''hi'')))]\<rparr>
     = [Text (JSON_stringify completion)]"
    "property completion ''id'' = JStr (''chatcmpl-'' @ digits (nat (Date_now demo_backend 0)))"
    "property completion ''created'' = JNum (Date_now demo_backend 1 div 1000)"
    "content \<lparr>content = [Text (JSON_stringify
       (chat_completion 1751114169243 1751114169243 (JStr ''gemma3:1b'') (JStr ''hi'')))]\<rparr>
     = [Text (JSON_stringify completion')]"
    "(property completion ''id'' = property completion' ''id'')
       = (Date_now demo_backend 0
          = Date_now (demo_backend \<lparr>Date_now := (\<lambda>k. 1751114169243)\<rparr>) 0)"
    by blast
  then have "[Text (JSON_stringify
           (chat_completion 1751114169242 1751114169242 (JStr ''gemma3:1b'') (JStr ''hi'')))]
          = [Text (JSON_stringify completion)]
        \<and> property completion ''id'' = JStr ''chatcmpl-1751114169242''
        \<and> property completion ''created'' = JNum 1751114169
        \<and> [Text (JSON_stringify
           (chat_completion 1751114169243 1751114169243 (JStr ''gemma3:1b'') (JStr ''hi'')))]
          = [Text (JSON_stringify completion')]
        \<and> property completion ''id'' \<noteq> property completion' ''id''"
    by (simp add: demo_backend_def digits.simps)
  with h h' show ?thesis by blast
qed

text \<open>
  C8, as the specification states it, fails. A \<^verbatim>\<open>chat_completion\<close> call with
  temperature 1 and an output-length cap \<^verbatim>\<open>num_predict\<close> of -1 sends a request
  whose body has the temperature and no \<^verbatim>\<open>num_predict\<close>: the daemon of
  \<open>echo_backend\<close> hands the body back, and it has the five properties
  \<^verbatim>\<open>model\<close>, \<^verbatim>\<open>prompt\<close>, \<^verbatim>\<open>stream\<close>, \<^verbatim>\<open>temperature\<close> and
  \<^verbatim>\<open>raw\<close>. The body of a \<^verbatim>\<open>run\<close> request has no temperature either.
\<close>

theorem num_predict_not_forwarded:
  "handleChatCompletion echo_backend
     (JObj [(''model'', JStr ''m''),
            (''messages'', JArr [JObj [(''role'', JStr ''user''), (''content'', JStr ''hi'')]]),
            (''temperature'', JNum 1), (''num_predict'', JNum (- 1))])
   = Inr \<lparr>content = [Text (JSON_stringify
       (chat_completion 1751114169242 1751114169242 (JStr ''m'')
          (JObj [(''model'', JStr ''m''), (''prompt'', JStr (''User: hi'' @ [LF])),
                 (''stream'', JBool False), (''temperature'', JNum 1),
                 (''raw'', JBool True)])))]\<rparr>
   \<and> get (data (run_request echo_backend (JStr ''m'') (JStr ''hi'') JUndefined)) ''temperature''
     = Inr JUndefined"
  by (simp add: handleChatCompletion_object chat_answer_def echo_backend_def demo_backend_def
      property_def flatten_prompt_def message_line_def data_response_def chat_request_def
      run_request_def)

text \<open>
  C8, amended. A \<^verbatim>\<open>chat_completion\<close> call whose messages can be flattened sends
  exactly one request, to the daemon's generate endpoint, and its body carries the
  caller's \<^verbatim>\<open>temperature\<close> argument unchanged, whatever value it is, next to the
  model, the flattened prompt, \<^verbatim>\<open>stream: false\<close> and \<^verbatim>\<open>raw: true\<close>. A
  \<^verbatim>\<open>run\<close> call sends exactly one request to the same endpoint, and its body
  carries the model, the prompt and \<^verbatim>\<open>stream: true\<close>.
\<close>

theorem temperature_forwarded:
  "(flatten_prompt (property kvs ''messages'') = Inr prompt \<longrightarrow>
      handleChatCompletion b (JObj kvs)
      = chat_answer b (property kvs ''model'')
          (axios_post b
             \<lparr>url = OLLAMA_HOST b @ ''/api/generate'',
              data = JObj [(''model'', property kvs ''model''), (''prompt'', JStr prompt),
                           (''stream'', JBool False),
                           (''temperature'', property kvs ''temperature''),
                           (''raw'', JBool True)],
              timeout = or_else (property kvs ''timeout'') (JNum 60000),
              responseType = None\<rparr>))
   \<and> handleRun b (JObj kvs)
     = run_answer b
         (axios_post b
            \<lparr>url = OLLAMA_HOST b @ ''/api/generate'',
             data = JObj [(''model'', property kvs ''name''), (''prompt'', property kvs ''prompt''),
                          (''stream'', JBool True)],
             timeout = or_else (property kvs ''timeout'') (JNum 60000),
             responseType = Some ''stream''\<rparr>)"
  by (simp add: handleChatCompletion_object handleRun_object chat_request_def run_request_def
      DEFAULT_TIMEOUT_def)

theorem temperature_forwarded_witness:
  "handleChatCompletion echo_backend
     (JObj [(''model'', JStr ''m''), (''messages'', JArr []), (''temperature'', JFrac ''0.7'')])
   = Inr \<lparr>content = [Text (JSON_stringify
       (chat_completion 1751114169242 1751114169242 (JStr ''m'')
          (JObj [(''model'', JStr ''m''), (''prompt'', JStr []),
                 (''stream'', JBool False), (''temperature'', JFrac ''0.7''),
                 (''raw'', JBool True)])))]\<rparr>"
proof -
  have 1: "flatten_prompt
             (property [(''model'', JStr ''m''), (''messages'', JArr []), (''temperature'', JFrac ''0.7'')]
                ''messages'') = Inr []"
    by (simp add: property_def flatten_prompt_def)
  from temperature_forwarded
         [where b = echo_backend and prompt = "[]"
            and kvs = "[(''model'', JStr ''m''), (''messages'', JArr []), (''temperature'', JFrac ''0.7'')]"]
       1
  show ?thesis
    by (simp add: chat_answer_def echo_backend_def demo_backend_def property_def
        data_response_def)
qed

text \<open>
  C9, as the specification states it, fails. The one buffered HTTP call of the program
  is \<^verbatim>\<open>chat_completion\<close>. With the daemon's payload
  \<^verbatim>\<open>{response: "hi", done: true}\<close> its envelope has one text block, but the text
  is not \<^verbatim>\<open>hi\<close>: it is the JSON text, indented by two spaces, of the whole
  completion object, in which \<^verbatim>\<open>hi\<close> is the content of the message.
\<close>

theorem buffered_text_is_json:
  "handleChatCompletion demo_backend
     (JObj [(''model'', JStr ''gemma3:1b''),
            (''messages'', JArr [JObj [(''role'', JStr ''user''), (''content'', JStr ''Say hi'')]])])
   = Inr \<lparr>content = [Text
     (''{'' @ [LF] @
      ''  '' @ [DQ] @ ''id'' @ [DQ] @ '': '' @ [DQ] @ ''chatcmpl-1751114169242'' @ [DQ] @ '','' @ [LF] @
      ''  '' @ [DQ] @ ''object'' @ [DQ] @ '': '' @ [DQ] @ ''chat.completion'' @ [DQ] @ '','' @ [LF] @
      ''  '' @ [DQ] @ ''created'' @ [DQ] @ '': 1751114169,'' @ [LF] @
      ''  '' @ [DQ] @ ''model'' @ [DQ] @ '': '' @ [DQ] @ ''gemma3:1b'' @ [DQ] @ '','' @ [LF] @
      ''  '' @ [DQ] @ ''choices'' @ [DQ] @ '': ['' @ [LF] @
      ''    {'' @ [LF] @
      ''      '' @ [DQ] @ ''index'' @ [DQ] @ '': 0,'' @ [LF] @
      ''      '' @ [DQ] @ ''message'' @ [DQ] @ '': {'' @ [LF] @
      ''        '' @ [DQ] @ ''role'' @ [DQ] @ '': '' @ [DQ] @ ''assistant'' @ [DQ] @ '','' @ [LF] @
      ''        '' @ [DQ] @ ''content'' @ [DQ] @ '': '' @ [DQ] @ ''hi'' @ [DQ] @ [LF] @
      ''      },'' @ [LF] @
      ''      '' @ [DQ] @ ''finish_reason'' @ [DQ] @ '': '' @ [DQ] @ ''stop'' @ [DQ] @ [LF] @
      ''    }'' @ [LF] @
      ''  ]'' @ [LF] @
      ''}'')]\<rparr>
   \<and> handleChatCompletion demo_backend
     (JObj [(''model'', JStr ''gemma3:1b''),
            (''messages'', JArr [JObj [(''role'', JStr ''user''), (''content'', JStr ''Say hi'')]])])
   \<noteq> Inr \<lparr>content = [Text ''hi'']\<rparr>"
  by (simp add: chat_demo JSON_stringify_def chat_completion_def bracketed_def quote_def
      escape_char_def Number_toString_def digits.simps finite_number_def to_double_def)

text \<open>
  C9, amended. The buffered HTTP call sends a single request with
  \<^verbatim>\<open>stream: false\<close> and takes the \<^verbatim>\<open>response\<close> field of the JSON payload it
  gets back; its envelope has exactly one text block, whose text is the JSON text of the
  completion object with that field as the content of its one message. For the payload
  \<^verbatim>\<open>{response: "hi", done: true}\<close> that content is \<^verbatim>\<open>hi\<close>.
\<close>

theorem buffered_call:
  assumes "flatten_prompt (property kvs ''messages'') = Inr prompt"
    and "axios_post b
           \<lparr>url = OLLAMA_HOST b @ ''/api/generate'',
            data = JObj [(''model'', property kvs ''model''), (''prompt'', JStr prompt),
                         (''stream'', JBool False),
                         (''temperature'', property kvs ''temperature''), (''raw'', JBool True)],
            timeout = or_else (property kvs ''timeout'') (JNum 60000),
            responseType = None\<rparr>
         = Inr (Parsed (JObj payload))"
  shows "handleChatCompletion b (JObj kvs)
         = Inr \<lparr>content = [Text (JSON_stringify
             (chat_completion (Date_now b 0) (Date_now b 1) (property kvs ''model'')
                (property payload ''response'')))]\<rparr>"
  using assms
  by (simp add: handleChatCompletion_object chat_answer_def chat_request_def
      DEFAULT_TIMEOUT_def data_response_def)

theorem buffered_call_witness:
  "handleChatCompletion demo_backend
     (JObj [(''model'', JStr ''m''), (''messages'', JArr [])])
   = Inr \<lparr>content = [Text (JSON_stringify
       (chat_completion 1751114169242 1751114169242 (JStr ''m'') (JStr ''hi'')))]\<rparr>"
proof -
  have 1: "flatten_prompt (property [(''model'', JStr ''m''), (''messages'', JArr [])] ''messages'')
           = Inr []"
    by (simp add: property_def flatten_prompt_def)
  have 2: "axios_post demo_backend
           \<lparr>url = OLLAMA_HOST demo_backend @ ''/api/generate'',
            data = JObj [(''model'',
                            property [(''model'', JStr ''m''), (''messages'', JArr [])] ''model''),
                         (''prompt'', JStr []),
                         (''stream'', JBool False),
                         (''temperature'',
                            property [(''model'', JStr ''m''), (''messages'', JArr [])]
                              ''temperature''),
                         (''raw'', JBool True)],
            timeout = or_else
                        (property [(''model'', JStr ''m''), (''messages'', JArr [])] ''timeout'')
                        (JNum 60000),
            responseType = None\<rparr>
         = Inr (Parsed (JObj [(''response'', JStr ''hi''), (''done'', JBool True)]))"
    by (simp add: demo_backend_def)
  from buffered_call [OF 1 2] show ?thesis
    by (simp add: property_def demo_backend_def)
qed

text \<open>
  C10. A call that the dispatcher answers with an envelope gets exactly one content
  block: a stream block when the tool is \<^verbatim>\<open>run\<close>, a text block for every other
  tool (the eight process-backed ones and \<^verbatim>\<open>chat_completion\<close>). No answer has an
  empty content list or a second block.
\<close>

theorem CallTool_one_block:
  assumes "CallTool b request = Inr result"
  shows "if params_name request = ''run''
         then \<exists>vs e. content result = [Stream vs e]
         else \<exists>t. content result = [Text t]"
proof -
  from assms have "switch_name b request = Inr result"
    by (auto simp: CallTool_def split: sum.splits thrown.splits)
  from switch_name_Inr [OF this] show ?thesis by (auto split: if_splits)
qed

theorem CallTool_one_block_witness:
  "CallTool demo_backend \<lparr>params_name = ''rm'', params_arguments = JObj [(''name'', JStr ''m'')]\<rparr>
     = Inr \<lparr>content = [Text ''ollama rm m'']\<rparr>
   \<and> (\<exists>t. content \<lparr>content = [Text ''ollama rm m'']\<rparr> = [Text t])"
proof -
  have h: "CallTool demo_backend
             \<lparr>params_name = ''rm'', params_arguments = JObj [(''name'', JStr ''m'')]\<rparr>
           = Inr \<lparr>content = [Text ''ollama rm m'']\<rparr>"
    by (simp add: CallTool_def switch_name_def handleRemove_def demo_backend_def property_def)
  from CallTool_one_block [OF h] show ?thesis using h by simp
qed

end
